theory Spec2Isabelle
  imports Main
begin

section \<open>The recorder's outside world\<close>

text \<open>
  The program under study is \<^verbatim>\<open>video_capture.py\<close>: a recorder that launches an external
  encoder, supervises it, and routes the produced file through an approve / reject /
  time-out workflow. Everything the program does besides computing is made explicit:
  the file system, the action log, the sleeps, the modal notices, and the answers the
  operating system gives (which the functions below take as parameters).
\<close>

subsection \<open>Paths and the file system\<close>

text \<open>
  A path is a string. \<^verbatim>\<open>os.path.exists\<close>, \<^verbatim>\<open>os.path.isfile\<close> and \<^verbatim>\<open>os.path.isdir\<close> read a
  map from paths to the kind of entry found there: a regular file, a directory, a link whose
  target is missing (\<open>DeadLink\<close>), or something else (\<open>Special\<close>: a device, a socket).
  The three functions follow links, so all three are false on a dead link, and
  \<^verbatim>\<open>os.path.isfile\<close> and \<^verbatim>\<open>os.path.isdir\<close> are both false on a special entry. A link whose
  target is there is the kind of its target.
\<close>

datatype kind = File | Dir | DeadLink | Special

type_synonym filesystem = "string \<rightharpoonup> kind"

definition path_exists :: "filesystem \<Rightarrow> string \<Rightarrow> bool" where
  "path_exists fs p = (fs p \<noteq> None \<and> fs p \<noteq> Some DeadLink)"

definition isfile :: "filesystem \<Rightarrow> string \<Rightarrow> bool" where
  "isfile fs p = (fs p = Some File)"

definition isdir :: "filesystem \<Rightarrow> string \<Rightarrow> bool" where
  "isdir fs p = (fs p = Some Dir)"

text \<open>
  \<^verbatim>\<open>os.path.join(d, n)\<close> for a relative name \<open>n\<close> and \<^verbatim>\<open>os.path.basename\<close>, with \<open>/\<close> as the
  separator. \<^verbatim>\<open>BASE_DIR\<close> is the directory of the script; the four working directories are
  written relative to it.
\<close>

definition path_join :: "string \<Rightarrow> string \<Rightarrow> string" where
  "path_join d n = d @ ''/'' @ n"

definition basename :: "string \<Rightarrow> string" where
  "basename p = rev (takeWhile (\<lambda>c. c \<noteq> CHR ''/'') (rev p))"

definition INBOUND_DIR :: string where
  "INBOUND_DIR = ''inbound''"

definition APPROVED_DIR :: string where
  "APPROVED_DIR = ''approved''"

definition DELETE_DAILY_DIR :: string where
  "DELETE_DAILY_DIR = ''delete_daily''"

definition MAX_RECORD_SECONDS :: nat where
  "MAX_RECORD_SECONDS = 60"

definition POST_RECORD_TIMEOUT :: int where
  "POST_RECORD_TIMEOUT = 30"

definition FALLBACK_VIDEO_DEVICE :: string where
  "FALLBACK_VIDEO_DEVICE = ''USB Camera''"

definition FALLBACK_AUDIO_DEVICE :: string where
  "FALLBACK_AUDIO_DEVICE = ''Microphone (USB 2.0 Camera)''"

subsection \<open>The action log, notices and the world record\<close>

text \<open>
  \<^verbatim>\<open>log(msg)\<close> appends one line to the action log. Each constructor stands for one message
  template of the source, with the values interpolated into it:
  \<^item> \<open>Moved src dst\<close>: \<^verbatim>\<open>Moved {src} -> {dst}\<close>
  \<^item> \<open>MoveAttemptFailed n e\<close>: \<^verbatim>\<open>Move attempt {attempt+1} failed: {e}\<close>
  \<^item> \<open>FailedToMove src dst\<close>: \<^verbatim>\<open>Failed to move {src} -> {dst}\<close>
  \<^item> \<open>CleanupError path e\<close>: \<^verbatim>\<open>Cleanup error for {path}: {e}\<close>
  \<^item> \<open>CleanupRemoved n\<close>: \<^verbatim>\<open>delete_daily cleanup removed {removed} items\<close>
  \<^item> \<open>StartingFfmpeg path\<close>: \<^verbatim>\<open>Starting ffmpeg: ...\<close> (the command line, which ends with the output path)
  \<^item> \<open>RecordingFailed e\<close>: \<^verbatim>\<open>Recording failed: {e}\<close>
  \<^item> \<open>RecordingFinished f\<close>: \<^verbatim>\<open>Recording finished: {self.current_file}\<close>
  \<^item> \<open>UserStopped\<close>: \<^verbatim>\<open>User stopped recording\<close>
  \<^item> \<open>AutoMoved f\<close>: \<^verbatim>\<open>Auto-moved to delete_daily: {self.current_file}\<close>
  \<^item> \<open>UsingDevices v a\<close>: \<^verbatim>\<open>Using devices -> video: {v!r}, audio: {a!r}\<close>
  \<^item> \<open>UserSelectedDevices v a\<close>: \<^verbatim>\<open>User selected devices -> video: {v!r}, audio: {a!r}\<close>
  \<^item> \<open>FirstRunFallback\<close>: \<^verbatim>\<open>First-run selection fallback used.\<close>
  The time stamp that \<^verbatim>\<open>log\<close> puts in front of the message is left out.
\<close>

datatype log_msg =
    Moved string string
  | MoveAttemptFailed nat string
  | FailedToMove string string
  | CleanupError string string
  | CleanupRemoved nat
  | StartingFfmpeg string
  | RecordingFailed string
  | RecordingFinished "string option"
  | UserStopped
  | AutoMoved "string option"
  | UsingDevices string string
  | UserSelectedDevices string string
  | FirstRunFallback

text \<open>The modal notices of \<^verbatim>\<open>messagebox.showinfo\<close>, by their titles.\<close>

datatype notice = ApprovedNotice | RejectedNotice | TimedOutNotice

text \<open>
  What the program can ask of the encoder process: \<^verbatim>\<open>terminate()\<close>, \<^verbatim>\<open>wait(timeout=...)\<close>
  (in milliseconds) and \<^verbatim>\<open>kill()\<close>. On Windows, the only system with DirectShow,
  \<^verbatim>\<open>terminate()\<close> and \<^verbatim>\<open>kill()\<close> are the same call of \<^verbatim>\<open>TerminateProcess\<close>.
\<close>

datatype proc_cmd = Terminate | WaitTimeout nat | Kill

text \<open>An exception: \<^verbatim>\<open>IndexError\<close>, or any other one by its text.\<close>

datatype error = IndexError | Raised string

text \<open>
  The world: the file system, the log, every \<^verbatim>\<open>time.sleep\<close> made inside \<^verbatim>\<open>safe_move\<close>
  (in milliseconds, in order), the notices shown, how many times \<^verbatim>\<open>shutil.move\<close> has
  been called so far, what has been asked of encoder processes, and the exceptions that
  have left a callback of the interface (Tk prints their traceback and goes on with the
  event loop).
\<close>

record world =
  fs :: filesystem
  logged :: "log_msg list"
  sleeps :: "nat list"
  notices :: "notice list"
  move_calls :: nat
  signals :: "proc_cmd list"
  tracebacks :: "error list"

definition log :: "log_msg \<Rightarrow> world \<Rightarrow> world" where
  "log m w = w\<lparr>logged := logged w @ [m]\<rparr>"

section \<open>Artifact relocation: \<^verbatim>\<open>safe_move\<close>\<close>

text \<open>
  \<^verbatim>\<open>
  def safe_move(src, dst_dir, retries=6, delay=0.4):
      if not src or not os.path.exists(src): return False
      os.makedirs(dst_dir, exist_ok=True)
      dst = os.path.join(dst_dir, os.path.basename(src))
      for attempt in range(retries):
          try:
              shutil.move(src, dst)
              log(f"Moved {src} -> {dst}")
              return True
          except Exception as e:
              log(f"Move attempt {attempt+1} failed: {e}")
              time.sleep(delay)
      log(f"Failed to move {src} -> {dst}")
      return False
  \<close>
  Whether a call of \<^verbatim>\<open>shutil.move\<close> raises is the operating system's answer: the parameter
  \<open>mv\<close> gives, for the \<open>k\<close>-th call of \<^verbatim>\<open>shutil.move\<close> since the program started, \<open>None\<close>
  when it succeeds and \<open>Some e\<close> when it raises \<open>e\<close>. A call that raises leaves the file
  system as it was; a call that succeeds takes the entry from \<open>src\<close> to \<open>dst\<close>.
  \<^verbatim>\<open>os.makedirs(dst_dir, exist_ok=True)\<close> stands before the \<^verbatim>\<open>try\<close>: what it raises leaves
  \<^verbatim>\<open>safe_move\<close>. It does nothing when \<open>dst_dir\<close> is a directory, raises \<^verbatim>\<open>FileExistsError\<close>
  when something else has that name, and otherwise creates the directory, unless the
  operating system refuses: the parameter \<open>mk\<close> gives, for a directory to create, \<open>None\<close>
  when it can be created and \<open>Some e\<close> when the creation raises \<open>e\<close>.
  \<open>src\<close> is \<open>None\<close>, the empty string (both false in Python) or a path.
\<close>

definition makedirs :: "(string \<Rightarrow> string option) \<Rightarrow> string \<Rightarrow> world \<Rightarrow> error + world" where
  "makedirs mk d w =
     (if isdir (fs w) d then Inr w
      else if fs w d \<noteq> None then Inl (Raised ''FileExistsError'')
      else (case mk d of
              None \<Rightarrow> Inr (w\<lparr>fs := (fs w)(d \<mapsto> Dir)\<rparr>)
            | Some e \<Rightarrow> Inl (Raised e)))"

definition shutil_move_ok :: "string \<Rightarrow> string \<Rightarrow> world \<Rightarrow> world" where
  "shutil_move_ok src dst w =
     w\<lparr>fs := ((fs w)(src := None))(dst := fs w src), move_calls := Suc (move_calls w)\<rparr>"

definition shutil_move_raises :: "world \<Rightarrow> world" where
  "shutil_move_raises w = w\<lparr>move_calls := Suc (move_calls w)\<rparr>"

text \<open>
  The \<^verbatim>\<open>for attempt in range(retries)\<close> loop: \<open>left\<close> attempts remain, \<open>attempt\<close> is the
  loop variable. The equation for \<open>left = 0\<close> is the code after the loop.
\<close>

fun move_loop ::
  "(nat \<Rightarrow> string option) \<Rightarrow> string \<Rightarrow> string \<Rightarrow> nat \<Rightarrow> nat \<Rightarrow> nat \<Rightarrow> world \<Rightarrow> bool \<times> world"
where
  "move_loop mv src dst delay 0 attempt w = (False, log (FailedToMove src dst) w)"
| "move_loop mv src dst delay (Suc left) attempt w =
     (case mv (move_calls w) of
        None \<Rightarrow> (True, log (Moved src dst) (shutil_move_ok src dst w))
      | Some e \<Rightarrow>
          move_loop mv src dst delay left (Suc attempt)
            ((log (MoveAttemptFailed (attempt + 1) e) (shutil_move_raises w))
               \<lparr>sleeps := sleeps w @ [delay]\<rparr>))"

definition safe_move_with ::
  "(nat \<Rightarrow> string option) \<Rightarrow> (string \<Rightarrow> string option) \<Rightarrow> string option \<Rightarrow> string \<Rightarrow>
   nat \<Rightarrow> nat \<Rightarrow> world \<Rightarrow> error + (bool \<times> world)"
where
  "safe_move_with mv mk src dst_dir retries delay w =
     (case src of
        None \<Rightarrow> Inr (False, w)
      | Some p \<Rightarrow>
          if p = [] \<or> \<not> path_exists (fs w) p then Inr (False, w)
          else (case makedirs mk dst_dir w of
                  Inl e \<Rightarrow> Inl e
                | Inr w1 \<Rightarrow>
                    Inr (move_loop mv p (path_join dst_dir (basename p)) delay retries 0 w1)))"

text \<open>The defaults \<^verbatim>\<open>retries=6, delay=0.4\<close> (seconds; 400 milliseconds).\<close>

definition safe_move ::
  "(nat \<Rightarrow> string option) \<Rightarrow> (string \<Rightarrow> string option) \<Rightarrow> string option \<Rightarrow> string \<Rightarrow>
   world \<Rightarrow> error + (bool \<times> world)"
where
  "safe_move mv mk src dst_dir w = safe_move_with mv mk src dst_dir 6 400 w"

section \<open>Startup purge: \<^verbatim>\<open>cleanup_delete_daily\<close>\<close>

text \<open>
  \<^verbatim>\<open>
  def cleanup_delete_daily():
      removed = 0
      for name in os.listdir(DELETE_DAILY_DIR):
          path = os.path.join(DELETE_DAILY_DIR, name)
          try:
              if os.path.isfile(path): os.remove(path); removed += 1
              elif os.path.isdir(path): shutil.rmtree(path); removed += 1
          except Exception as e:
              log(f"Cleanup error for {path}: {e}")
      log(f"delete_daily cleanup removed {removed} items")
      return removed
  \<close>
  \<open>names\<close> is what \<^verbatim>\<open>os.listdir(DELETE_DAILY_DIR)\<close> returned, in its order. \<open>rm path\<close> is the
  operating system's answer to the deletion of \<open>path\<close>: \<open>None\<close> when \<^verbatim>\<open>os.remove\<close> or
  \<^verbatim>\<open>shutil.rmtree\<close> succeeds, \<open>Some e\<close> when it raises \<open>e\<close> (the entry itself is then still
  there). \<^verbatim>\<open>shutil.rmtree\<close> takes the directory and everything below it.
\<close>

definition below :: "string \<Rightarrow> string \<Rightarrow> bool" where
  "below d p = (take (length d + 1) p = d @ ''/'')"

definition os_remove :: "string \<Rightarrow> world \<Rightarrow> world" where
  "os_remove path w = w\<lparr>fs := (fs w)(path := None)\<rparr>"

definition rmtree :: "string \<Rightarrow> world \<Rightarrow> world" where
  "rmtree path w = w\<lparr>fs := (\<lambda>p. if p = path \<or> below path p then None else fs w p)\<rparr>"

fun cleanup_loop ::
  "(string \<Rightarrow> string option) \<Rightarrow> string list \<Rightarrow> nat \<Rightarrow> world \<Rightarrow> nat \<times> world"
where
  "cleanup_loop rm [] removed w = (removed, w)"
| "cleanup_loop rm (name # names) removed w =
     (let path = path_join DELETE_DAILY_DIR name in
      if isfile (fs w) path then
        (case rm path of
           None \<Rightarrow> cleanup_loop rm names (removed + 1) (os_remove path w)
         | Some e \<Rightarrow> cleanup_loop rm names removed (log (CleanupError path e) w))
      else if isdir (fs w) path then
        (case rm path of
           None \<Rightarrow> cleanup_loop rm names (removed + 1) (rmtree path w)
         | Some e \<Rightarrow> cleanup_loop rm names removed (log (CleanupError path e) w))
      else cleanup_loop rm names removed w)"

definition cleanup_delete_daily ::
  "(string \<Rightarrow> string option) \<Rightarrow> string list \<Rightarrow> world \<Rightarrow> nat \<times> world"
where
  "cleanup_delete_daily rm names w =
     (case cleanup_loop rm names 0 w of
        (removed, w') \<Rightarrow> (removed, log (CleanupRemoved removed) w'))"

text \<open>
  The path of a listed name, as the loop builds it; the names whose entry is a file or a
  directory and whose deletion succeeds; and those whose deletion raises.
\<close>

definition entry :: "string \<Rightarrow> string" where
  "entry name = path_join DELETE_DAILY_DIR name"

definition deletes :: "(string \<Rightarrow> string option) \<Rightarrow> filesystem \<Rightarrow> string \<Rightarrow> bool" where
  "deletes rm f name =
     ((isfile f (entry name) \<or> isdir f (entry name)) \<and> rm (entry name) = None)"

definition fails_on :: "(string \<Rightarrow> string option) \<Rightarrow> filesystem \<Rightarrow> string \<Rightarrow> bool" where
  "fails_on rm f name =
     ((isfile f (entry name) \<or> isdir f (entry name)) \<and> rm (entry name) \<noteq> None)"

text \<open>
  The paths a purge takes away: the entry of each name it deletes, and everything below a
  directory it deletes.
\<close>

definition purged :: "(string \<Rightarrow> string option) \<Rightarrow> filesystem \<Rightarrow> string list \<Rightarrow> string \<Rightarrow> bool" where
  "purged rm f names p =
     (\<exists>n\<in>set names. deletes rm f n \<and> (p = entry n \<or> (isdir f (entry n) \<and> below (entry n) p)))"

section \<open>Device detection\<close>

subsection \<open>The string operations of \<^verbatim>\<open>parse_dshow_devices\<close>\<close>

text \<open>
  A character is a code point below 256. \<^verbatim>\<open>str.splitlines\<close> breaks at line feed, carriage
  return (with a following line feed as one break), vertical tab, form feed, the file, group
  and record separators and NEL; \<^verbatim>\<open>str.strip()\<close> also takes off tab, unit separator, space
  and no-break space.
\<close>

definition is_linebreak :: "char \<Rightarrow> bool" where
  "is_linebreak c =
     (c \<in> set [CHR 0x0A, CHR 0x0D, CHR 0x0B, CHR 0x0C, CHR 0x1C, CHR 0x1D, CHR 0x1E, CHR 0x85])"

definition is_space :: "char \<Rightarrow> bool" where
  "is_space c = (is_linebreak c \<or> c \<in> set [CHR 0x09, CHR 0x1F, CHR 0x20, CHR 0xA0])"

fun splitlines_from :: "string \<Rightarrow> string \<Rightarrow> string list" where
  "splitlines_from cur [] = (if cur = [] then [] else [rev cur])"
| "splitlines_from cur [c] = (if is_linebreak c then [rev cur] else [rev (c # cur)])"
| "splitlines_from cur (c # d # cs) =
     (if c = CHR 0x0D \<and> d = CHR 0x0A then rev cur # splitlines_from [] cs
      else if is_linebreak c then rev cur # splitlines_from [] (d # cs)
      else splitlines_from (c # cur) (d # cs))"

definition splitlines :: "string \<Rightarrow> string list" where
  "splitlines s = splitlines_from [] s"

definition strip_with :: "(char \<Rightarrow> bool) \<Rightarrow> string \<Rightarrow> string" where
  "strip_with P s = rev (dropWhile P (rev (dropWhile P s)))"

definition strip :: "string \<Rightarrow> string" where
  "strip s = strip_with is_space s"

definition quote :: char where
  "quote = CHR 0x22"

definition startswith :: "string \<Rightarrow> string \<Rightarrow> bool" where
  "startswith s pre = (take (length pre) s = pre)"

definition endswith :: "string \<Rightarrow> string \<Rightarrow> bool" where
  "endswith s suf = (length suf \<le> length s \<and> drop (length s - length suf) s = suf)"

fun contains :: "string \<Rightarrow> string \<Rightarrow> bool" where
  "contains sub [] = (sub = [])"
| "contains sub (c # cs) = (startswith (c # cs) sub \<or> contains sub cs)"

subsection \<open>\<^verbatim>\<open>parse_dshow_devices\<close>, \<^verbatim>\<open>ffmpeg_list_devices\<close> and \<^verbatim>\<open>detect_devices_once\<close>\<close>

text \<open>
  \<^verbatim>\<open>
  def parse_dshow_devices(stderr_text):
      video, audio = [], []
      mode = None
      for line in stderr_text.splitlines():
          line = line.strip()
          if "DirectShow video devices" in line: mode="video"; continue
          if "DirectShow audio devices" in line: mode="audio"; continue
          if mode and line.startswith('"') and line.endswith('"'):
              name = line.strip('"')
              if mode=="video": video.append(name)
              else: audio.append(name)
      return video, audio
  \<close>
\<close>

datatype mode = Video | Audio

fun parse_lines ::
  "mode option \<Rightarrow> string list \<Rightarrow> string list \<Rightarrow> string list \<Rightarrow> string list \<times> string list"
where
  "parse_lines m video audio [] = (video, audio)"
| "parse_lines m video audio (l # ls) =
     (let line = strip l in
      if contains ''DirectShow video devices'' line then parse_lines (Some Video) video audio ls
      else if contains ''DirectShow audio devices'' line then parse_lines (Some Audio) video audio ls
      else if m \<noteq> None \<and> startswith line [quote] \<and> endswith line [quote] then
        (let name = strip_with (\<lambda>c. c = quote) line in
         if m = Some Video then parse_lines m (video @ [name]) audio ls
         else parse_lines m video (audio @ [name]) ls)
      else parse_lines m video audio ls)"

definition parse_dshow_devices :: "string \<Rightarrow> string list \<times> string list" where
  "parse_dshow_devices stderr_text = parse_lines None [] [] (splitlines stderr_text)"

text \<open>
  \<^verbatim>\<open>
  def ffmpeg_list_devices():
      try:
          proc = subprocess.run([FFMPEG_CMD, "-list_devices", "true", "-f", "dshow", "-i", "dummy"],
                                capture_output=True, text=True, check=False)
          return proc.stderr
      except FileNotFoundError:
          return ""

  def detect_devices_once():
      out = ffmpeg_list_devices()
      vids, auds = parse_dshow_devices(out)
      if not vids: vids = [FALLBACK_VIDEO_DEVICE]
      if not auds: auds = [FALLBACK_AUDIO_DEVICE]
      return vids, auds
  \<close>
  What \<^verbatim>\<open>subprocess.run\<close> does is the operating system's answer: it completes with the text
  the encoder wrote to its error stream, it raises \<^verbatim>\<open>FileNotFoundError\<close> (no such binary), or
  it raises something else (the binary cannot be executed, its output cannot be decoded).
  Only the second is caught.
\<close>

datatype run_outcome = Completed string | RaisesFileNotFound | RaisesOther string

definition ffmpeg_list_devices :: "run_outcome \<Rightarrow> error + string" where
  "ffmpeg_list_devices r =
     (case r of
        Completed stderr_text \<Rightarrow> Inr stderr_text
      | RaisesFileNotFound \<Rightarrow> Inr []
      | RaisesOther e \<Rightarrow> Inl (Raised e))"

definition detect_devices_once :: "run_outcome \<Rightarrow> error + (string list \<times> string list)" where
  "detect_devices_once r =
     (case ffmpeg_list_devices r of
        Inl e \<Rightarrow> Inl e
      | Inr out \<Rightarrow>
          (case parse_dshow_devices out of
             (vids, auds) \<Rightarrow>
               Inr (if vids = [] then [FALLBACK_VIDEO_DEVICE] else vids,
                    if auds = [] then [FALLBACK_AUDIO_DEVICE] else auds)))"

section \<open>The application state\<close>

text \<open>
  The fields of \<^verbatim>\<open>VideoRecorderApp\<close> that the recording and disposition code reads or writes.
  A button is \<open>True\<close> when its state is \<^verbatim>\<open>normal\<close> and \<open>False\<close> when it is \<^verbatim>\<open>disabled\<close>.
  \<open>post_timeout_job\<close> is \<open>True\<close> when the field holds the identifier of a call of
  \<^verbatim>\<open>_post_timeout_tick\<close> scheduled with \<^verbatim>\<open>root.after\<close>, and \<open>False\<close> when it is \<^verbatim>\<open>None\<close>.
  \<open>config\<close> is the dictionary \<^verbatim>\<open>load_config()\<close> returned.
\<close>

datatype status = StatusReady | StatusRecording | StatusRecordingFinished | StatusAwaiting int

record app =
  config :: "string \<rightharpoonup> string"
  video_device :: string
  audio_device :: string
  preview_running :: bool
  recording :: bool
  current_file :: "string option"
  post_timeout_job :: bool
  post_timeout_left :: int
  start_btn :: bool
  stop_btn :: bool
  play_btn :: bool
  approve_btn :: bool
  reject_btn :: bool
  status_var :: status

definition open_preview :: "app \<Rightarrow> app" where
  "open_preview a = a\<lparr>preview_running := True\<rparr>"

definition close_preview :: "app \<Rightarrow> app" where
  "close_preview a = a\<lparr>preview_running := False\<rparr>"

subsection \<open>The device dialog and \<^verbatim>\<open>__init__\<close>\<close>

text \<open>
  \<^verbatim>\<open>DeviceSelectDialog\<close> shows two read-only combo boxes over the offered lists, set to the
  current selection. The user cancels, or confirms after picking an entry of each list
  (by its index) or leaving the box as it is. \<^verbatim>\<open>apply\<close> stores the two box values.
\<close>

datatype dialog_choice = Cancelled | Confirmed "nat option" "nat option"

definition pick :: "string list \<Rightarrow> string \<Rightarrow> nat option \<Rightarrow> string" where
  "pick values current i =
     (case i of
        None \<Rightarrow> current
      | Some k \<Rightarrow> if k < length values then values ! k else current)"

definition device_select_dialog ::
  "dialog_choice \<Rightarrow> string list \<Rightarrow> string list \<Rightarrow> string \<Rightarrow> string \<Rightarrow> (string \<times> string) option"
where
  "device_select_dialog ch video_list audio_list selected_video selected_audio =
     (case ch of
        Cancelled \<Rightarrow> None
      | Confirmed i j \<Rightarrow>
          Some (pick video_list selected_video i, pick audio_list selected_audio j))"

text \<open>\<^verbatim>\<open>xs[0]\<close>, which raises \<^verbatim>\<open>IndexError\<close> on the empty list.\<close>

definition item0 :: "string list \<Rightarrow> error + string" where
  "item0 xs = (if xs = [] then Inl IndexError else Inr (hd xs))"

text \<open>\<^verbatim>\<open>s or xs[0]\<close>: the index is read only when \<open>s\<close> is the empty string.\<close>

definition or_first :: "string \<Rightarrow> string list \<Rightarrow> error + string" where
  "or_first s xs = (if s \<noteq> [] then Inr s else item0 xs)"

text \<open>
  \<^verbatim>\<open>
  def open_device_dialog(self, first_run=False, video_list=None, audio_list=None):
      if video_list is None or audio_list is None: vids, auds = detect_devices_once()
      else: vids, auds = video_list, audio_list
      dlg = DeviceSelectDialog(self.root, vids, auds, self.video_device, self.audio_device)
      res = getattr(dlg, "result", None)
      if res:
          self.video_device = res["video"]; self.audio_device = res["audio"]
          self.config["video_device"] = self.video_device; self.config["audio_device"] = self.audio_device
          save_config(self.config)
          log(f"User selected devices -> video: {self.video_device!r}, audio: {self.audio_device!r}")
          self.close_preview(); self.open_preview()
      elif first_run:
          self.video_device = self.video_device or vids[0]; self.audio_device = self.audio_device or auds[0]
          self.config["video_device"] = self.video_device; self.config["audio_device"] = self.audio_device
          save_config(self.config)
          log("First-run selection fallback used.")
  \<close>
  \<^verbatim>\<open>save_config\<close> writes the configuration file and never raises; the file is not part of
  the world record.
\<close>

definition store_selection :: "string \<Rightarrow> string \<Rightarrow> app \<Rightarrow> app" where
  "store_selection v au a =
     a\<lparr>video_device := v, audio_device := au,
       config := (config a)(''video_device'' \<mapsto> v, ''audio_device'' \<mapsto> au)\<rparr>"

definition open_device_dialog ::
  "run_outcome \<Rightarrow> dialog_choice \<Rightarrow> bool \<Rightarrow> string list option \<Rightarrow> string list option \<Rightarrow>
   app \<times> world \<Rightarrow> error + (app \<times> world)"
where
  "open_device_dialog r ch first_run video_list audio_list s =
     (case s of (a, w) \<Rightarrow>
      (case (case (video_list, audio_list) of
               (Some vl, Some al) \<Rightarrow> Inr (vl, al)
             | _ \<Rightarrow> detect_devices_once r) of
         Inl e \<Rightarrow> Inl e
       | Inr (vids, auds) \<Rightarrow>
           (case device_select_dialog ch vids auds (video_device a) (audio_device a) of
              Some (v, au) \<Rightarrow>
                Inr (open_preview (close_preview (store_selection v au a)),
                     log (UserSelectedDevices v au) w)
            | None \<Rightarrow>
                if first_run then
                  (case or_first (video_device a) vids of
                     Inl e \<Rightarrow> Inl e
                   | Inr v \<Rightarrow>
                       (case or_first (audio_device a) auds of
                          Inl e \<Rightarrow> Inl e
                        | Inr au \<Rightarrow> Inr (store_selection v au a, log FirstRunFallback w)))
                else Inr (a, w))))"

text \<open>
  \<^verbatim>\<open>
  def __init__(self, root):
      ...
      self.config = load_config()
      vids, auds = detect_devices_once()
      saved_video = self.config.get("video_device", vids[0])
      saved_audio = self.config.get("audio_device", auds[0])
      self.video_device = saved_video; self.audio_device = saved_audio
      ... (the buttons: Start enabled, the others disabled; status "Ready")
      self.cap = None; self.preview_job = None; self.preview_running = False
      self.record_thread = None; self.record_proc = None; self.recording = False
      self.record_start_time = None; self.current_file = None
      self.post_timeout_job = None; self.post_timeout_left = 0
      ...
      cleanup_delete_daily()
      if "video_device" not in self.config or "audio_device" not in self.config:
          self.open_device_dialog(first_run=True, video_list=vids, audio_list=auds)
      log(f"Using devices -> video: {self.video_device!r}, audio: {self.audio_device!r}")
      self.open_preview()
  \<close>
  \<open>cfg\<close> is the dictionary read from the configuration file (empty when there is none).
\<close>

definition get_or :: "(string \<rightharpoonup> string) \<Rightarrow> string \<Rightarrow> string \<Rightarrow> string" where
  "get_or cfg k d = (case cfg k of None \<Rightarrow> d | Some v \<Rightarrow> v)"

definition init ::
  "run_outcome \<Rightarrow> (string \<rightharpoonup> string) \<Rightarrow> dialog_choice \<Rightarrow> (string \<Rightarrow> string option) \<Rightarrow>
   string list \<Rightarrow> world \<Rightarrow> error + (app \<times> world)"
where
  "init r cfg ch rm names w =
     (case detect_devices_once r of
        Inl e \<Rightarrow> Inl e
      | Inr (vids, auds) \<Rightarrow>
          (case item0 vids of
             Inl e \<Rightarrow> Inl e
           | Inr v0 \<Rightarrow>
               (case item0 auds of
                  Inl e \<Rightarrow> Inl e
                | Inr a0 \<Rightarrow>
                    (let a = \<lparr>config = cfg,
                              video_device = get_or cfg ''video_device'' v0,
                              audio_device = get_or cfg ''audio_device'' a0,
                              preview_running = False, recording = False,
                              current_file = None,
                              post_timeout_job = False, post_timeout_left = 0,
                              start_btn = True, stop_btn = False, play_btn = False,
                              approve_btn = False, reject_btn = False,
                              status_var = StatusReady\<rparr>;
                         w1 = snd (cleanup_delete_daily rm names w)
                     in (case (if cfg ''video_device'' = None \<or> cfg ''audio_device'' = None
                               then open_device_dialog r ch True (Some vids) (Some auds) (a, w1)
                               else Inr (a, w1)) of
                           Inl e \<Rightarrow> Inl e
                         | Inr (a2, w2) \<Rightarrow>
                             Inr (open_preview a2,
                                  log (UsingDevices (video_device a2) (audio_device a2)) w2))))))"

section \<open>The disposition timer and approve / reject\<close>

text \<open>
  \<^verbatim>\<open>
  def start_post_timeout(self):
      self.cancel_post_timeout(); self.post_timeout_left = POST_RECORD_TIMEOUT
      self.post_timeout_job = self.root.after(1000, self._post_timeout_tick)
      self.status_var.set(f"Awaiting approve/reject ({self.post_timeout_left}s)")

  def cancel_post_timeout(self):
      if self.post_timeout_job:
          try: self.root.after_cancel(self.post_timeout_job)
          except Exception: pass
          self.post_timeout_job = None; self.post_timeout_left = 0
      self.status_var.set("Ready")

  def reset_post_timeout(self, event=None):
      if self.current_file and os.path.exists(self.current_file): self.start_post_timeout()
  \<close>
\<close>

definition cancel_post_timeout :: "app \<Rightarrow> app" where
  "cancel_post_timeout a =
     (if post_timeout_job a then a\<lparr>post_timeout_job := False, post_timeout_left := 0\<rparr> else a)
       \<lparr>status_var := StatusReady\<rparr>"

definition start_post_timeout :: "app \<Rightarrow> app" where
  "start_post_timeout a =
     (cancel_post_timeout a)
       \<lparr>post_timeout_left := POST_RECORD_TIMEOUT, post_timeout_job := True,
        status_var := StatusAwaiting POST_RECORD_TIMEOUT\<rparr>"

text \<open>\<^verbatim>\<open>self.current_file and os.path.exists(self.current_file)\<close>\<close>

definition file_present :: "app \<Rightarrow> world \<Rightarrow> bool" where
  "file_present a w =
     (case current_file a of
        None \<Rightarrow> False
      | Some p \<Rightarrow> p \<noteq> [] \<and> path_exists (fs w) p)"


definition disable_disposition :: "app \<Rightarrow> app" where
  "disable_disposition a =
     a\<lparr>current_file := None, approve_btn := False, reject_btn := False, play_btn := False\<rparr>"

definition show_notice :: "notice \<Rightarrow> world \<Rightarrow> world" where
  "show_notice n w = w\<lparr>notices := notices w @ [n]\<rparr>"

text \<open>
  \<^verbatim>\<open>
  def _post_timeout_tick(self):
      self.post_timeout_left -= 1
      self.status_var.set(f"Awaiting approve/reject ({self.post_timeout_left}s)")
      if self.post_timeout_left <= 0:
          if self.current_file and os.path.exists(self.current_file):
              safe_move(self.current_file, DELETE_DAILY_DIR)
              messagebox.showinfo("Timed out", ...)
              log(f"Auto-moved to delete_daily: {self.current_file}")
              self.current_file = None
              self.approve_btn.config(state="disabled"); self.reject_btn.config(state="disabled"); self.play_btn.config(state="disabled")
          self.cancel_post_timeout(); return
      self.post_timeout_job = self.root.after(1000, self._post_timeout_tick)
  \<close>
  The callback runs when the scheduled job fires. When \<^verbatim>\<open>safe_move\<close> raises, the callback
  ends there: the application is as that line found it and the exception is reported.
\<close>

definition report :: "error \<Rightarrow> world \<Rightarrow> world" where
  "report e w = w\<lparr>tracebacks := tracebacks w @ [e]\<rparr>"


text \<open>
  \<^verbatim>\<open>
  def approve_current(self):
      if self.current_file and os.path.exists(self.current_file):
          if safe_move(self.current_file, APPROVED_DIR):
              messagebox.showinfo("Approved", f"Moved to {APPROVED_DIR}")
              self.current_file = None; self.approve_btn.config(state="disabled"); self.reject_btn.config(state="disabled"); self.play_btn.config(state="disabled")
              self.cancel_post_timeout()
  def reject_current(self):
      if self.current_file and os.path.exists(self.current_file):
          if safe_move(self.current_file, DELETE_DAILY_DIR):
              messagebox.showinfo("Rejected", f"Moved to {DELETE_DAILY_DIR}")
              self.current_file = None; self.approve_btn.config(state="disabled"); self.reject_btn.config(state="disabled"); self.play_btn.config(state="disabled")
              self.cancel_post_timeout()
  \<close>
  The two handlers differ in the destination and in the notice only; \<open>move_current\<close> is
  their common body. When \<^verbatim>\<open>safe_move\<close> raises, the handler ends there with the application
  as it was, and the exception is reported.
\<close>

definition move_current ::
  "(nat \<Rightarrow> string option) \<Rightarrow> (string \<Rightarrow> string option) \<Rightarrow> string \<Rightarrow> notice \<Rightarrow>
   app \<times> world \<Rightarrow> app \<times> world"
where
  "move_current mv mk dst_dir n s =
     (case s of (a, w) \<Rightarrow>
      if file_present a w then
        (case safe_move mv mk (current_file a) dst_dir w of
           Inl e \<Rightarrow> (a, report e w)
         | Inr (ok, w1) \<Rightarrow>
             if ok then (cancel_post_timeout (disable_disposition a), show_notice n w1)
             else (a, w1))
      else (a, w))"

definition approve_current ::
  "(nat \<Rightarrow> string option) \<Rightarrow> (string \<Rightarrow> string option) \<Rightarrow> app \<times> world \<Rightarrow> app \<times> world"
where
  "approve_current mv mk s = move_current mv mk APPROVED_DIR ApprovedNotice s"

definition reject_current ::
  "(nat \<Rightarrow> string option) \<Rightarrow> (string \<Rightarrow> string option) \<Rightarrow> app \<times> world \<Rightarrow> app \<times> world"
where
  "reject_current mv mk s = move_current mv mk DELETE_DAILY_DIR RejectedNotice s"

section \<open>Recording: \<^verbatim>\<open>start_recording_thread\<close> and \<^verbatim>\<open>_record_worker\<close>\<close>

subsection \<open>What the outside does during one recording\<close>

text \<open>
  Times are in milliseconds since \<^verbatim>\<open>record_start_time\<close>. One recording meets:
  \<^item> \<open>now_ts\<close>: \<^verbatim>\<open>int(time.time())\<close> when the worker starts;
  \<^item> \<open>popen_raises\<close>: the exception \<^verbatim>\<open>subprocess.Popen\<close> raises, if it does;
  \<^item> \<open>exits_at\<close>: when the encoder exits by itself, if it ever does;
  \<^item> \<open>stop_at\<close>: when the user presses Stop (the interface thread then runs
    \<^verbatim>\<open>stop_recording\<close>), if ever;
  \<^item> \<open>term_delay\<close>: how long after the first \<^verbatim>\<open>terminate()\<close> the encoder is gone (the call
    starts the termination and returns at once; the process is gone when the operating
    system has finished with it); \<open>None\<close> when it never is;
  \<^item> \<open>writes_file\<close>: whether the output file is on disk when the worker looks for it.
  The clock is idealised: one pass of the wait loop takes the 100 ms of its \<^verbatim>\<open>time.sleep(0.1)\<close>
  and everything else takes no time.
\<close>

record rec_env =
  now_ts :: nat
  popen_raises :: "string option"
  exits_at :: "nat option"
  stop_at :: "nat option"
  term_delay :: "nat option"
  writes_file :: bool

text \<open>The decimal digits of a number, as \<^verbatim>\<open>f"{ts}"\<close> writes them.\<close>

definition digit :: "nat \<Rightarrow> char" where
  "digit d = ''0123456789'' ! d"

function str_of_nat :: "nat \<Rightarrow> string" where
  "str_of_nat n =
     (if n < 10 then [digit n]
      else str_of_nat (n div 10) @ [digit (n mod 10)])"
  by pat_completeness auto
termination
  by (relation "measure (\<lambda>n. n)") auto

declare str_of_nat.simps [simp del]

definition outpath :: "rec_env \<Rightarrow> string" where
  "outpath env = path_join INBOUND_DIR (''recording_'' @ str_of_nat (now_ts env) @ ''.mp4'')"

text \<open>
  \<^verbatim>\<open>poll() is not None\<close> at time \<open>t\<close>, when \<^verbatim>\<open>terminate()\<close> was first called at time \<open>req\<close>
  (\<open>None\<close>: not yet called): the encoder has exited by itself, or it has obeyed the request.
\<close>

definition polled_dead :: "rec_env \<Rightarrow> nat option \<Rightarrow> nat \<Rightarrow> bool" where
  "polled_dead env req t =
     ((case exits_at env of None \<Rightarrow> False | Some e \<Rightarrow> e \<le> t) \<or>
      (case req of
         None \<Rightarrow> False
       | Some r \<Rightarrow> (case term_delay env of None \<Rightarrow> False | Some d \<Rightarrow> r + d \<le> t)))"

definition stop_pressed :: "rec_env \<Rightarrow> nat \<Rightarrow> bool" where
  "stop_pressed env t = (case stop_at env of None \<Rightarrow> False | Some s \<Rightarrow> s \<le> t)"

subsection \<open>The wait loop and the termination of the encoder\<close>

text \<open>
  \<^verbatim>\<open>
  while self.recording and self.record_proc.poll() is None:
      if time.time() - self.record_start_time >= MAX_RECORD_SECONDS: break
      time.sleep(0.1)
  \<close>
  \<^verbatim>\<open>self.recording\<close> is true until \<^verbatim>\<open>stop_recording\<close> clears it. The result is the time at which
  the loop is left.
\<close>

function wait_loop :: "rec_env \<Rightarrow> nat \<Rightarrow> nat" where
  "wait_loop env t =
     (if \<not> stop_pressed env t \<and> \<not> polled_dead env None t then
        (if MAX_RECORD_SECONDS * 1000 \<le> t then t else wait_loop env (t + 100))
      else t)"
  by pat_completeness auto
termination
  by (relation "measure (\<lambda>(env, t). MAX_RECORD_SECONDS * 1000 + 100 - t)") auto

declare wait_loop.simps [simp del]

text \<open>
  \<^verbatim>\<open>
  if self.record_proc and self.record_proc.poll() is None:
      try: self.record_proc.terminate()
      except Exception: pass
      try: self.record_proc.wait(timeout=2)
      except Exception: pass
  \<close>
  and, on the interface thread when Stop is pressed while \<^verbatim>\<open>self.recording\<close> is set:
  \<^verbatim>\<open>
  def stop_recording(self):
      if not self.recording: return
      log("User stopped recording"); self.recording = False
      if self.record_proc and self.record_proc.poll() is None:
          try: self.record_proc.terminate()
          except Exception: pass
  \<close>
  \<^verbatim>\<open>self.recording\<close> is cleared by the worker only after \<^verbatim>\<open>wait(timeout=2)\<close>, so Stop acts
  from the start of the recording until that wait has ended: in the loop, or while the
  worker waits for the encoder.
  \<open>exit_time env r\<close> is when the encoder is gone, \<^verbatim>\<open>terminate()\<close> having first been called at
  \<open>r\<close>; \<open>wait_end env r T\<close> is when a \<^verbatim>\<open>wait(timeout=2)\<close> begun at \<open>T\<close> ends: when the encoder
  is gone, or after 2 seconds.
  \<open>supervise\<close> gives: when the wait loop was left; whether \<^verbatim>\<open>stop_recording\<close> ran (and
  logged its line); everything asked of the encoder, in order; and whether the encoder is
  still running when \<^verbatim>\<open>wait(timeout=2)\<close> has returned or given up (or, when it was not
  called, at the poll).
\<close>

definition exit_time :: "rec_env \<Rightarrow> nat \<Rightarrow> nat option" where
  "exit_time env r =
     (case exits_at env of
        None \<Rightarrow> (case term_delay env of None \<Rightarrow> None | Some d \<Rightarrow> Some (r + d))
      | Some e \<Rightarrow> (case term_delay env of None \<Rightarrow> Some e | Some d \<Rightarrow> Some (min e (r + d))))"

definition wait_end :: "rec_env \<Rightarrow> nat \<Rightarrow> nat \<Rightarrow> nat" where
  "wait_end env r T =
     (case exit_time env r of None \<Rightarrow> T + 2000 | Some D \<Rightarrow> min D (T + 2000))"

record supervision =
  loop_exit :: nat
  stopped_by_user :: bool
  sent :: "proc_cmd list"
  alive_after :: bool

definition supervise :: "rec_env \<Rightarrow> supervision" where
  "supervise env =
     (let T = wait_loop env 0;
          s = (case stop_at env of None \<Rightarrow> 0 | Some s \<Rightarrow> s);
          stopped_loop = stop_pressed env T;
          stop_sent = (stopped_loop \<and> \<not> polled_dead env None s);
          req0 = (if stop_sent then Some s else None);
          alive_T = (\<not> polled_dead env req0 T);
          r = (if stop_sent then s else T);
          W = (if alive_T then wait_end env r T else T);
          stopped_wait = (stop_at env \<noteq> None \<and> T < s \<and> s \<le> W);
          stop_wait_sent = (stopped_wait \<and> \<not> polled_dead env (Some r) s)
      in \<lparr>loop_exit = T,
          stopped_by_user = (stopped_loop \<or> stopped_wait),
          sent = (if stop_sent then [Terminate] else []) @
                 (if alive_T then [Terminate, WaitTimeout 2000] else []) @
                 (if stop_wait_sent then [Terminate] else []),
          alive_after = (alive_T \<and> \<not> polled_dead env (Some r) (T + 2000))\<rparr>)"

subsection \<open>The worker\<close>

text \<open>
  \<^verbatim>\<open>
  def start_recording_thread(self):
      if self.recording: return
      self.record_thread = threading.Thread(target=self._record_worker, daemon=True)
      self.record_thread.start()

  def _record_worker(self):
      self.close_preview()
      time.sleep(0.12)  # ensure camera release
      ts = int(time.time()); filename = f"recording_{ts}.mp4"
      outpath = os.path.join(INBOUND_DIR, filename); self.current_file = outpath
      ...
      log(f"Starting ffmpeg: {' '.join(cmd)}")
      try: self.record_proc = subprocess.Popen(cmd, stdout=subprocess.DEVNULL, stderr=subprocess.DEVNULL)
      except Exception as e:
          log(f"Recording failed: {e}"); self.open_preview(); return

      self.recording = True; self.record_start_time = time.time()
      self.start_btn.config(state="disabled"); self.stop_btn.config(state="normal"); self.status_var.set("Recording...")
      (the wait loop and the termination of the encoder)
      self.recording = False
      self.start_btn.config(state="normal"); self.stop_btn.config(state="disabled"); self.status_var.set("Recording finished")
      log(f"Recording finished: {self.current_file}")
      time.sleep(0.25); self.open_preview()
      if self.current_file and os.path.exists(self.current_file):
          self.approve_btn.config(state="normal"); self.reject_btn.config(state="normal"); self.play_btn.config(state="normal")
          self.start_post_timeout()
  \<close>
  The worker is cut in two at the point where \<^verbatim>\<open>self.recording\<close> has been set: the state
  between the two halves is the one the interface thread sees while the encoder runs.
  \<open>record_worker_launch\<close> returns \<open>Inl\<close> when the worker has returned after a failed launch
  and \<open>Inr\<close> when the encoder has been started.
\<close>

definition record_worker_launch :: "rec_env \<Rightarrow> app \<times> world \<Rightarrow> (app \<times> world) + (app \<times> world)" where
  "record_worker_launch env s =
     (case s of (a, w) \<Rightarrow>
      (let a1 = (close_preview a)\<lparr>current_file := Some (outpath env)\<rparr>;
           w1 = log (StartingFfmpeg (outpath env)) w
       in (case popen_raises env of
             Some e \<Rightarrow> Inl (open_preview a1, log (RecordingFailed e) w1)
           | None \<Rightarrow>
               Inr (a1\<lparr>recording := True, start_btn := False, stop_btn := True,
                        status_var := StatusRecording\<rparr>, w1))))"

definition record_worker_finish :: "rec_env \<Rightarrow> app \<times> world \<Rightarrow> app \<times> world" where
  "record_worker_finish env s =
     (case s of (a, w) \<Rightarrow>
      (let sup = supervise env;
           w1 = (if stopped_by_user sup then log UserStopped w else w);
           w2 = w1\<lparr>signals := signals w1 @ sent sup\<rparr>;
           a1 = a\<lparr>recording := False, start_btn := True, stop_btn := False,
                  status_var := StatusRecordingFinished\<rparr>;
           w3 = log (RecordingFinished (current_file a1)) w2;
           a2 = open_preview a1;
           w4 = (if writes_file env then w3\<lparr>fs := (fs w3)(outpath env \<mapsto> File)\<rparr> else w3)
       in if file_present a2 w4 then
            (start_post_timeout (a2\<lparr>approve_btn := True, reject_btn := True, play_btn := True\<rparr>), w4)
          else (a2, w4)))"

definition record_worker :: "rec_env \<Rightarrow> app \<times> world \<Rightarrow> app \<times> world" where
  "record_worker env s =
     (case record_worker_launch env s of
        Inl s1 \<Rightarrow> s1
      | Inr s1 \<Rightarrow> record_worker_finish env s1)"

definition start_recording_thread :: "rec_env \<Rightarrow> app \<times> world \<Rightarrow> app \<times> world" where
  "start_recording_thread env s = (if recording (fst s) then s else record_worker env s)"

subsection \<open>The phases of a session\<close>

text \<open>
  The session is \<open>Recording\<close> while \<^verbatim>\<open>self.recording\<close> is set, \<open>AwaitingDisposition\<close> while a
  disposition countdown is scheduled, and \<open>Idle\<close> otherwise.
\<close>

datatype phase = Idle | Recording | AwaitingDisposition

definition phase :: "app \<Rightarrow> phase" where
  "phase a =
     (if recording a then Recording
      else if post_timeout_job a then AwaitingDisposition
      else Idle)"

text \<open>The two decisions of the disposition window, and the handler each one runs.\<close>

datatype decision = Approved | Rejected

definition resolve ::
  "(nat \<Rightarrow> string option) \<Rightarrow> (string \<Rightarrow> string option) \<Rightarrow> decision \<Rightarrow>
   app \<times> world \<Rightarrow> app \<times> world"
where
  "resolve mv mk d s =
     (case d of Approved \<Rightarrow> approve_current mv mk s | Rejected \<Rightarrow> reject_current mv mk s)"



text \<open>
  The world as the worker leaves it: the end of the recording logged (after the line of
  \<^verbatim>\<open>stop_recording\<close>, if Stop was pressed), the requests to the encoder recorded, and the
  output file there if the encoder wrote it.
\<close>

definition world_after_take :: "rec_env \<Rightarrow> app \<Rightarrow> world \<Rightarrow> world" where
  "world_after_take env a w =
     w\<lparr>logged := logged w @ (if stopped_by_user (supervise env) then [UserStopped] else []) @
                   [RecordingFinished (current_file a)],
       signals := signals w @ sent (supervise env),
       fs := (if writes_file env then (fs w)(outpath env \<mapsto> File) else fs w)\<rparr>"

section \<open>Concrete states and recordings\<close>

text \<open>
  \<open>fresh_world\<close> is an empty file system with nothing logged; \<open>idle_app\<close> is the application
  as \<^verbatim>\<open>__init__\<close> leaves it on a first run with no device found. \<open>good_take\<close> is a recording
  that the user stops after 300 ms and that leaves its file; \<open>empty_take\<close> is one whose
  encoder exits at once and leaves no file; \<open>slow_take\<close> is one that runs to the maximum
  duration with an encoder that is gone 5 seconds after \<^verbatim>\<open>terminate()\<close>.
  \<open>never\<close> is the answer of an operating system that raises nothing.
  \<open>awaiting_app\<close> is a session that awaits the disposition of \<^verbatim>\<open>inbound/recording_7.mp4\<close> with
  one second left on the countdown, and \<open>one_file_world\<close> a world in which that file is the
  only entry.
\<close>

definition never :: "'a \<Rightarrow> string option" where
  "never x = None"

definition fresh_world :: world where
  "fresh_world =
     \<lparr>fs = Map.empty, logged = [], sleeps = [], notices = [], move_calls = 0, signals = [],
      tracebacks = []\<rparr>"

definition idle_app :: app where
  "idle_app =
     \<lparr>config = [''video_device'' \<mapsto> ''USB Camera'',
                 ''audio_device'' \<mapsto> ''Microphone (USB 2.0 Camera)''],
      video_device = ''USB Camera'',
      audio_device = ''Microphone (USB 2.0 Camera)'',
      preview_running = True, recording = False,
      current_file = None,
      post_timeout_job = False, post_timeout_left = 0,
      start_btn = True, stop_btn = False, play_btn = False,
      approve_btn = False, reject_btn = False,
      status_var = StatusReady\<rparr>"

definition good_take :: rec_env where
  "good_take =
     \<lparr>now_ts = 7, popen_raises = None, exits_at = None, stop_at = Some 300,
      term_delay = Some 50, writes_file = True\<rparr>"

definition empty_take :: rec_env where
  "empty_take =
     \<lparr>now_ts = 9, popen_raises = None, exits_at = Some 0, stop_at = None,
      term_delay = None, writes_file = False\<rparr>"

definition slow_take :: rec_env where
  "slow_take =
     \<lparr>now_ts = 11, popen_raises = None, exits_at = None, stop_at = None,
      term_delay = Some 5000, writes_file = True\<rparr>"

definition awaiting_app :: app where
  "awaiting_app =
     \<lparr>config = Map.empty, video_device = ''USB Camera'',
      audio_device = ''Microphone (USB 2.0 Camera)'',
      preview_running = True, recording = False,
      current_file = Some ''inbound/recording_7.mp4'',
      post_timeout_job = True, post_timeout_left = 1,
      start_btn = True, stop_btn = False, play_btn = True,
      approve_btn = True, reject_btn = True,
      status_var = StatusAwaiting 1\<rparr>"

definition one_file_world :: world where
  "one_file_world =
     \<lparr>fs = [''inbound/recording_7.mp4'' \<mapsto> File], logged = [], sleeps = [], notices = [],
      move_calls = 0, signals = [], tracebacks = []\<rparr>"

section \<open>Properties of \<^verbatim>\<open>safe_move\<close>\<close>

subsection \<open>The retry loop\<close>

lemma move_loop_all_fail:
  "(\<forall>i<n. mv (move_calls w + i) \<noteq> None) \<Longrightarrow>
   move_loop mv src dst delay n a w =
     (False, w\<lparr>logged := logged w @
                  map (\<lambda>i. MoveAttemptFailed (a + i + 1) (the (mv (move_calls w + i)))) [0..<n] @
                  [FailedToMove src dst],
               sleeps := sleeps w @ replicate n delay,
               move_calls := move_calls w + n\<rparr>)"
proof (induction n arbitrary: a w)
  case 0
  then show ?case by (simp add: log_def)
next
  case (Suc n)
  from Suc.prems have h0: "mv (move_calls w) \<noteq> None" by (metis add.right_neutral zero_less_Suc)
  then obtain e where e: "mv (move_calls w) = Some e" by auto
  let ?w = "(log (MoveAttemptFailed (a + 1) e) (shutil_move_raises w))\<lparr>sleeps := sleeps w @ [delay]\<rparr>"
  have mc: "move_calls ?w = Suc (move_calls w)" by (simp add: log_def shutil_move_raises_def)
  have "\<forall>i<n. mv (move_calls ?w + i) \<noteq> None"
    using Suc.prems mc by (metis Suc_less_eq add_Suc_shift)
  from Suc.IH[OF this, of "Suc a"] e show ?case
    apply (simp add: log_def shutil_move_raises_def upt_rec[of 0] map_Suc_upt[symmetric] replicate_app_Cons_same del: upt_Suc map_Suc_upt)
    done
qed

lemma map_upt_Suc_shift: "map f [0..<Suc n] = f 0 # map (\<lambda>i. f (Suc i)) [0..<n]"
proof -
  have "[0..<Suc n] = 0 # map Suc [0..<n]"
    by (simp only: map_Suc_upt upt_conv_Cons[of 0 "Suc n"] zero_less_Suc)
  then show ?thesis by (simp only: list.map map_map comp_def)
qed

lemma move_loop_success:
  "j < n \<Longrightarrow> (\<forall>i<j. mv (move_calls w + i) \<noteq> None) \<Longrightarrow> mv (move_calls w + j) = None \<Longrightarrow>
   move_loop mv src dst delay n a w =
     (True, log (Moved src dst) (shutil_move_ok src dst
        (w\<lparr>logged := logged w @
                  map (\<lambda>i. MoveAttemptFailed (a + i + 1) (the (mv (move_calls w + i)))) [0..<j],
              sleeps := sleeps w @ replicate j delay,
              move_calls := move_calls w + j\<rparr>)))"
proof (induction n arbitrary: a w j)
  case 0
  then show ?case by simp
next
  case (Suc n)
  show ?case
  proof (cases j)
    case 0
    with Suc.prems show ?thesis
      by (simp add: log_def shutil_move_ok_def)
  next
    case (Suc j')
    from Suc.prems Suc have "mv (move_calls w) \<noteq> None" by (metis add.right_neutral zero_less_Suc)
    then obtain e where e: "mv (move_calls w) = Some e" by auto
    let ?w = "(log (MoveAttemptFailed (a + 1) e) (shutil_move_raises w))\<lparr>sleeps := sleeps w @ [delay]\<rparr>"
    have mc: "move_calls ?w = Suc (move_calls w)" by (simp add: log_def shutil_move_raises_def)
    have a1: "\<forall>i<j'. mv (move_calls ?w + i) \<noteq> None"
      using Suc.prems(2) Suc mc by (metis Suc_less_eq add_Suc_shift)
    have a2: "mv (move_calls ?w + j') = None"
      using Suc.prems(3) Suc mc by simp
    have a3: "j' < n" using Suc.prems(1) Suc by simp
    from Suc.IH[OF a3 a1 a2, of "Suc a"] e Suc show ?thesis
      by (simp add: log_def shutil_move_raises_def map_upt_Suc_shift del: upt_Suc)
  qed
qed

lemma makedirs_result:
  assumes "makedirs mk d w = Inr w1"
  shows "logged w1 = logged w" "sleeps w1 = sleeps w" "move_calls w1 = move_calls w"
    "notices w1 = notices w" "signals w1 = signals w" "tracebacks w1 = tracebacks w"
    "fs w p \<noteq> None \<Longrightarrow> fs w1 p = fs w p"
  using assms by (auto simp: makedirs_def split: if_splits option.splits)

lemma makedirs_raises_when:
  "(\<exists>e. makedirs mk d w = Inl e) \<longleftrightarrow>
     (\<not> isdir (fs w) d \<and> (fs w d \<noteq> None \<or> mk d \<noteq> None))"
  by (auto simp: makedirs_def split: option.splits)

lemma first_success_exists:
  "\<not> (\<forall>i<(n::nat). f i \<noteq> None) \<Longrightarrow> \<exists>j<n. (\<forall>i<j. f i \<noteq> None) \<and> f j = None"
proof (induction n)
  case 0
  then show ?case by simp
next
  case (Suc n)
  show ?case
  proof (cases "\<forall>i<n. f i \<noteq> None")
    case True
    with Suc.prems have "f n = None" by (metis less_Suc_eq)
    with True show ?thesis by blast
  next
    case False
    from Suc.IH[OF this] show ?thesis by (metis less_Suc_eq)
  qed
qed

lemma safe_move_raises:
  assumes "p \<noteq> []" "path_exists (fs w) p" "makedirs mk d w = Inl e"
  shows "safe_move mv mk (Some p) d w = Inl e"
  using assms by (simp add: safe_move_def safe_move_with_def)

lemma safe_move_all_fail:
  assumes "p \<noteq> []" "path_exists (fs w) p" "makedirs mk d w = Inr w1"
    "\<forall>i<6. mv (move_calls w + i) \<noteq> None"
  shows "safe_move mv mk (Some p) d w =
          Inr (False, w1
             \<lparr>logged := logged w @
                 map (\<lambda>i. MoveAttemptFailed (i + 1) (the (mv (move_calls w + i)))) [0..<6] @
                 [FailedToMove p (path_join d (basename p))],
              sleeps := sleeps w @ replicate 6 400,
              move_calls := move_calls w + 6\<rparr>)"
proof -
  have "\<forall>i<6. mv (move_calls w1 + i) \<noteq> None"
    using assms(4) by (simp add: makedirs_result[OF assms(3)])
  from move_loop_all_fail[OF this, of p "path_join d (basename p)" 400 0] assms(1,2,3)
  show ?thesis
    by (simp add: safe_move_def safe_move_with_def makedirs_result[OF assms(3)]
        del: upt_Suc replicate_Suc replicate.simps)
qed

lemma safe_move_success:
  assumes "p \<noteq> []" "path_exists (fs w) p" "makedirs mk d w = Inr w1" "j < 6"
    "\<forall>i<j. mv (move_calls w + i) \<noteq> None" "mv (move_calls w + j) = None"
  shows "safe_move mv mk (Some p) d w =
          Inr (True, log (Moved p (path_join d (basename p)))
             (shutil_move_ok p (path_join d (basename p))
               (w1
                 \<lparr>logged := logged w @
                    map (\<lambda>i. MoveAttemptFailed (i + 1) (the (mv (move_calls w + i)))) [0..<j],
                  sleeps := sleeps w @ replicate j 400,
                  move_calls := move_calls w + j\<rparr>)))"
proof -
  have a: "\<forall>i<j. mv (move_calls w1 + i) \<noteq> None"
    using assms(5) by (simp add: makedirs_result[OF assms(3)])
  have b: "mv (move_calls w1 + j) = None"
    using assms(6) by (simp add: makedirs_result[OF assms(3)])
  from move_loop_success[OF assms(4) a b, of p "path_join d (basename p)" 400 0] assms(1,2,3)
  show ?thesis
    by (simp add: safe_move_def safe_move_with_def makedirs_result[OF assms(3)] del: upt_Suc)
qed

lemma move_loop_numeral:
  "move_loop mv src dst delay (numeral n) attempt w =
     (case mv (move_calls w) of
        None \<Rightarrow> (True, log (Moved src dst) (shutil_move_ok src dst w))
      | Some e \<Rightarrow>
          move_loop mv src dst delay (pred_numeral n) (Suc attempt)
            ((log (MoveAttemptFailed (attempt + 1) e) (shutil_move_raises w))
               \<lparr>sleeps := sleeps w @ [delay]\<rparr>))"
  by (simp add: numeral_eq_Suc)

subsection \<open>Bounded retry\<close>

text \<open>
  Claim C4. Let the source path exist, and let \<open>k\<close> calls of \<^verbatim>\<open>shutil.move\<close> have been made
  before. When \<^verbatim>\<open>os.makedirs\<close> raises (the destination is there and is not a directory, or
  cannot be created), the exception leaves \<^verbatim>\<open>safe_move\<close>: nothing is returned, attempted or
  logged. When the destination is a directory or can be created, \<^verbatim>\<open>safe_move\<close> returns, and
  whenever it returns: it returns \<^verbatim>\<open>False\<close> exactly when the six calls \<open>k, ..., k + 5\<close> all
  raise, and it never makes more than six. When the calls before the \<open>j\<close>-th raise and the
  \<open>j\<close>-th succeeds (\<open>j < 6\<close>), it returns \<^verbatim>\<open>True\<close>, has logged one line for each failed
  attempt, with its number and its error, then the line of the move, has slept 400 ms after
  each failed attempt, and the entry is at the destination. When all six raise, it has
  logged the six failed attempts and the final failure line, has slept 400 ms after each,
  and the source is where it was. In particular, when the first two attempts raise and the
  third succeeds, it returns \<^verbatim>\<open>True\<close> with exactly three lines logged, one for each attempt.
\<close>

theorem safe_move_bounded_retry:
  assumes "p \<noteq> []" and "path_exists (fs w) p"
  shows "(\<forall>e. makedirs mk d w = Inl e \<longrightarrow> safe_move mv mk (Some p) d w = Inl e) \<and>
         (isdir (fs w) d \<or> (fs w d = None \<and> mk d = None) \<longrightarrow>
            (\<exists>r. safe_move mv mk (Some p) d w = Inr r)) \<and>
         (\<forall>r. safe_move mv mk (Some p) d w = Inr r \<longrightarrow>
          (let k = move_calls w; dst = path_join d (basename p)
           in (fst r = False \<longleftrightarrow> (\<forall>i<6. mv (k + i) \<noteq> None)) \<and>
             move_calls (snd r) \<le> k + 6 \<and>
             (\<forall>j<6. (\<forall>i<j. mv (k + i) \<noteq> None) \<and> mv (k + j) = None \<longrightarrow>
                fst r = True \<and>
                logged (snd r) = logged w @
                  map (\<lambda>i. MoveAttemptFailed (i + 1) (the (mv (k + i)))) [0..<j] @ [Moved p dst] \<and>
                sleeps (snd r) = sleeps w @ replicate j 400 \<and>
                move_calls (snd r) = k + j + 1 \<and>
                fs (snd r) dst = fs w p \<and> (p \<noteq> dst \<longrightarrow> fs (snd r) p = None)) \<and>
             ((\<forall>i<6. mv (k + i) \<noteq> None) \<longrightarrow>
                logged (snd r) = logged w @
                  map (\<lambda>i. MoveAttemptFailed (i + 1) (the (mv (k + i)))) [0..<6] @
                  [FailedToMove p dst] \<and>
                sleeps (snd r) = sleeps w @ replicate 6 400 \<and>
                move_calls (snd r) = k + 6 \<and>
                fs (snd r) p = fs w p) \<and>
             (\<forall>e1 e2. mv k = Some e1 \<and> mv (k + 1) = Some e2 \<and> mv (k + 2) = None \<longrightarrow>
                fst r = True \<and>
                logged (snd r) = logged w @
                  [MoveAttemptFailed 1 e1, MoveAttemptFailed 2 e2, Moved p dst])))"
proof (intro conjI allI impI)
  fix e assume "makedirs mk d w = Inl e"
  then show "safe_move mv mk (Some p) d w = Inl e"
    by (rule safe_move_raises[OF assms])
next
  assume "isdir (fs w) d \<or> (fs w d = None \<and> mk d = None)"
  then have "\<exists>w1. makedirs mk d w = Inr w1"
    by (auto simp: makedirs_def)
  then obtain w1 where "makedirs mk d w = Inr w1" by blast
  with assms show "\<exists>r. safe_move mv mk (Some p) d w = Inr r"
    by (simp add: safe_move_def safe_move_with_def)
next
  fix r assume R: "safe_move mv mk (Some p) d w = Inr r"
  then obtain w1 where M: "makedirs mk d w = Inr w1"
    using assms by (auto simp: safe_move_def safe_move_with_def split: sum.splits)
  from assms(2) have ex: "fs w p \<noteq> None" by (simp add: path_exists_def)
  define k where "k = move_calls w"
  define dst where "dst = path_join d (basename p)"
  have fail: "fst r = False \<and>
        logged (snd r) = logged w @
          map (\<lambda>i. MoveAttemptFailed (i + 1) (the (mv (k + i)))) [0..<6] @ [FailedToMove p dst] \<and>
        sleeps (snd r) = sleeps w @ replicate 6 400 \<and>
        move_calls (snd r) = k + 6 \<and> fs (snd r) p = fs w p"
    if "\<forall>i<6. mv (k + i) \<noteq> None"
    using safe_move_all_fail[OF assms M, of mv] that makedirs_result(7)[OF M ex] R
    by (simp add: k_def dst_def del: upt_Suc replicate_Suc)
  have succ: "fst r = True \<and>
        logged (snd r) = logged w @
          map (\<lambda>i. MoveAttemptFailed (i + 1) (the (mv (k + i)))) [0..<j] @ [Moved p dst] \<and>
        sleeps (snd r) = sleeps w @ replicate j 400 \<and>
        move_calls (snd r) = k + j + 1 \<and>
        fs (snd r) dst = fs w p \<and> (p \<noteq> dst \<longrightarrow> fs (snd r) p = None)"
    if "j < 6" "\<forall>i<j. mv (k + i) \<noteq> None" "mv (k + j) = None" for j
    using safe_move_success[OF assms M, of j mv] that makedirs_result(7)[OF M ex] R
    by (simp add: k_def dst_def log_def shutil_move_ok_def del: upt_Suc replicate_Suc)
  have iff: "fst r = False \<longleftrightarrow> (\<forall>i<6. mv (k + i) \<noteq> None)"
  proof
    assume f: "fst r = False"
    show "\<forall>i<6. mv (k + i) \<noteq> None"
    proof (rule ccontr)
      assume "\<not> (\<forall>i<6. mv (k + i) \<noteq> None)"
      from first_success_exists[OF this] obtain j where
        "j < 6" "\<forall>i<j. mv (k + i) \<noteq> None" "mv (k + j) = None" by blast
      from succ[OF this] f show False by simp
    qed
  next
    assume "\<forall>i<6. mv (k + i) \<noteq> None"
    from fail[OF this] show "fst r = False" by simp
  qed
  have bound: "move_calls (snd r) \<le> k + 6"
  proof (cases "\<forall>i<6. mv (k + i) \<noteq> None")
    case True
    from fail[OF this] show ?thesis by simp
  next
    case False
    from first_success_exists[OF this] obtain j where
      j: "j < 6" "\<forall>i<j. mv (k + i) \<noteq> None" "mv (k + j) = None" by blast
    from succ[OF this] j(1) show ?thesis by simp
  qed
  have third: "fst r = True \<and>
        logged (snd r) = logged w @ [MoveAttemptFailed 1 e1, MoveAttemptFailed 2 e2, Moved p dst]"
    if h: "mv k = Some e1 \<and> mv (k + 1) = Some e2 \<and> mv (k + 2) = None" for e1 e2
  proof -
    have a: "\<forall>i<2. mv (k + i) \<noteq> None"
      using h by (auto simp: less_Suc_eq numeral_2_eq_2)
    have b: "(2::nat) < 6" by simp
    from succ[OF b a] h show ?thesis
      by (simp add: numeral_2_eq_2 upt_rec)
  qed
  from iff bound succ fail third
  show "(let k = move_calls w; dst = path_join d (basename p)
           in (fst r = False \<longleftrightarrow> (\<forall>i<6. mv (k + i) \<noteq> None)) \<and>
             move_calls (snd r) \<le> k + 6 \<and>
             (\<forall>j<6. (\<forall>i<j. mv (k + i) \<noteq> None) \<and> mv (k + j) = None \<longrightarrow>
                fst r = True \<and>
                logged (snd r) = logged w @
                  map (\<lambda>i. MoveAttemptFailed (i + 1) (the (mv (k + i)))) [0..<j] @ [Moved p dst] \<and>
                sleeps (snd r) = sleeps w @ replicate j 400 \<and>
                move_calls (snd r) = k + j + 1 \<and>
                fs (snd r) dst = fs w p \<and> (p \<noteq> dst \<longrightarrow> fs (snd r) p = None)) \<and>
             ((\<forall>i<6. mv (k + i) \<noteq> None) \<longrightarrow>
                logged (snd r) = logged w @
                  map (\<lambda>i. MoveAttemptFailed (i + 1) (the (mv (k + i)))) [0..<6] @
                  [FailedToMove p dst] \<and>
                sleeps (snd r) = sleeps w @ replicate 6 400 \<and>
                move_calls (snd r) = k + 6 \<and>
                fs (snd r) p = fs w p) \<and>
             (\<forall>e1 e2. mv k = Some e1 \<and> mv (k + 1) = Some e2 \<and> mv (k + 2) = None \<longrightarrow>
                fst r = True \<and>
                logged (snd r) = logged w @
                  [MoveAttemptFailed 1 e1, MoveAttemptFailed 2 e2, Moved p dst]))"
    unfolding Let_def k_def[symmetric] dst_def[symmetric]
    by blast
qed

theorem safe_move_bounded_retry_witness:
  "''inbound/recording_7.mp4'' \<noteq> [] \<and>
   path_exists (fs one_file_world) ''inbound/recording_7.mp4'' \<and>
   safe_move (\<lambda>k. if k < 2 then Some ''locked'' else None) never
     (Some ''inbound/recording_7.mp4'') ''approved'' one_file_world =
   Inr (True,
     one_file_world
       \<lparr>fs := [''approved'' \<mapsto> Dir, ''approved/recording_7.mp4'' \<mapsto> File],
        logged := [MoveAttemptFailed 1 ''locked'', MoveAttemptFailed 2 ''locked'',
                  Moved ''inbound/recording_7.mp4'' ''approved/recording_7.mp4''],
        sleeps := [400, 400], move_calls := 3\<rparr>) \<and>
   safe_move (\<lambda>k. Some ''locked'') never (Some ''inbound/recording_7.mp4'') ''approved''
       one_file_world =
   Inr (False,
     one_file_world
       \<lparr>fs := [''inbound/recording_7.mp4'' \<mapsto> File, ''approved'' \<mapsto> Dir],
        logged := [MoveAttemptFailed 1 ''locked'', MoveAttemptFailed 2 ''locked'',
          MoveAttemptFailed 3 ''locked'', MoveAttemptFailed 4 ''locked'',
          MoveAttemptFailed 5 ''locked'', MoveAttemptFailed 6 ''locked'',
          FailedToMove ''inbound/recording_7.mp4'' ''approved/recording_7.mp4''],
        sleeps := [400, 400, 400, 400, 400, 400], move_calls := 6\<rparr>) \<and>
   safe_move (\<lambda>k. None) never (Some ''inbound/recording_7.mp4'') ''approved''
       (one_file_world\<lparr>fs := [''inbound/recording_7.mp4'' \<mapsto> File, ''approved'' \<mapsto> File]\<rparr>) =
   Inl (Raised ''FileExistsError'')"
proof -
  have p: "''inbound/recording_7.mp4'' \<noteq> []"
    and x: "path_exists (fs one_file_world) ''inbound/recording_7.mp4''"
    and y: "path_exists
      (fs (one_file_world\<lparr>fs := [''inbound/recording_7.mp4'' \<mapsto> File, ''approved'' \<mapsto> File]\<rparr>))
      ''inbound/recording_7.mp4''"
    by (simp_all add: path_exists_def one_file_world_def)
  have e: "safe_move (\<lambda>k. if k < 2 then Some ''locked'' else None) never
     (Some ''inbound/recording_7.mp4'') ''approved'' one_file_world =
   Inr (True,
     one_file_world
       \<lparr>fs := [''approved'' \<mapsto> Dir, ''approved/recording_7.mp4'' \<mapsto> File],
        logged := [MoveAttemptFailed 1 ''locked'', MoveAttemptFailed 2 ''locked'',
                  Moved ''inbound/recording_7.mp4'' ''approved/recording_7.mp4''],
        sleeps := [400, 400], move_calls := 3\<rparr>)"
    by (simp add: safe_move_def safe_move_with_def path_exists_def makedirs_def isdir_def
        path_join_def basename_def log_def shutil_move_raises_def shutil_move_ok_def
        move_loop_numeral fun_eq_iff one_file_world_def never_def)
  have f: "safe_move (\<lambda>k. Some ''locked'') never (Some ''inbound/recording_7.mp4'') ''approved''
       one_file_world =
   Inr (False,
     one_file_world
       \<lparr>fs := [''inbound/recording_7.mp4'' \<mapsto> File, ''approved'' \<mapsto> Dir],
        logged := [MoveAttemptFailed 1 ''locked'', MoveAttemptFailed 2 ''locked'',
          MoveAttemptFailed 3 ''locked'', MoveAttemptFailed 4 ''locked'',
          MoveAttemptFailed 5 ''locked'', MoveAttemptFailed 6 ''locked'',
          FailedToMove ''inbound/recording_7.mp4'' ''approved/recording_7.mp4''],
        sleeps := [400, 400, 400, 400, 400, 400], move_calls := 6\<rparr>)"
    by (simp add: safe_move_def safe_move_with_def path_exists_def makedirs_def isdir_def
        path_join_def basename_def log_def shutil_move_raises_def shutil_move_ok_def
        move_loop_numeral fun_eq_iff one_file_world_def never_def)
  have m: "makedirs never ''approved''
      (one_file_world\<lparr>fs := [''inbound/recording_7.mp4'' \<mapsto> File, ''approved'' \<mapsto> File]\<rparr>) =
    Inl (Raised ''FileExistsError'')"
    by (simp add: makedirs_def isdir_def)
  from safe_move_bounded_retry [OF p y, of never "''approved''" "\<lambda>k. None"] m
  have g: "safe_move (\<lambda>k. None) never (Some ''inbound/recording_7.mp4'') ''approved''
       (one_file_world\<lparr>fs := [''inbound/recording_7.mp4'' \<mapsto> File, ''approved'' \<mapsto> File]\<rparr>) =
   Inl (Raised ''FileExistsError'')"
    by blast
  have k: "move_calls one_file_world = 0" "logged one_file_world = []"
    by (simp_all add: one_file_world_def)
  from safe_move_bounded_retry [OF p x, of never "''approved''"
      "\<lambda>k. if k < 2 then Some ''locked'' else None"]
  have "\<forall>r. safe_move (\<lambda>k. if k < 2 then Some ''locked'' else None) never
            (Some ''inbound/recording_7.mp4'') ''approved'' one_file_world = Inr r \<longrightarrow>
        (\<forall>e1 e2. (if (0::nat) < 2 then Some ''locked'' else None) = Some e1 \<and>
          (if (0::nat) + 1 < 2 then Some ''locked'' else None) = Some e2 \<and>
          (if (0::nat) + 2 < 2 then Some ''locked'' else None) = None \<longrightarrow>
        fst r = True \<and>
        logged (snd r) = [] @ [MoveAttemptFailed 1 e1, MoveAttemptFailed 2 e2,
          Moved ''inbound/recording_7.mp4''
            (path_join ''approved'' (basename ''inbound/recording_7.mp4''))])"
    unfolding Let_def k by blast
  then have t: "\<forall>r. safe_move (\<lambda>k. if k < 2 then Some ''locked'' else None) never
            (Some ''inbound/recording_7.mp4'') ''approved'' one_file_world = Inr r \<longrightarrow>
        fst r = True \<and>
        logged (snd r) = [MoveAttemptFailed 1 ''locked'', MoveAttemptFailed 2 ''locked'',
          Moved ''inbound/recording_7.mp4'' ''approved/recording_7.mp4'']"
    by (auto simp: path_join_def basename_def)
  from p x e f g t show ?thesis by blast
qed

subsection \<open>A source that is not there\<close>

text \<open>
  Claim C10. When the source is \<^verbatim>\<open>None\<close>, the empty string, or a path at which nothing exists,
  \<^verbatim>\<open>safe_move\<close> returns \<^verbatim>\<open>False\<close> and the world is what it was: no call of \<^verbatim>\<open>shutil.move\<close>, no
  sleep, no log line, no directory created. This holds for every retry count and delay.
\<close>

theorem safe_move_absent_source:
  "src = None \<or> src = Some [] \<or> (\<exists>p. src = Some p \<and> \<not> path_exists (fs w) p) \<Longrightarrow>
   safe_move_with mv mk src dst_dir retries delay w = Inr (False, w) \<and>
   safe_move mv mk src dst_dir w = Inr (False, w)"
  by (auto simp: safe_move_def safe_move_with_def)

theorem safe_move_absent_source_witness:
  "safe_move never never None ''approved'' one_file_world = Inr (False, one_file_world) \<and>
   safe_move never never (Some []) ''approved'' one_file_world = Inr (False, one_file_world) \<and>
   \<not> path_exists (fs one_file_world) ''inbound/b.mp4'' \<and>
   safe_move never never (Some ''inbound/b.mp4'') ''approved'' one_file_world =
     Inr (False, one_file_world) \<and>
   \<not> path_exists (fs (one_file_world\<lparr>fs := [''inbound/b.mp4'' \<mapsto> DeadLink]\<rparr>)) ''inbound/b.mp4'' \<and>
   safe_move never never (Some ''inbound/b.mp4'') ''approved''
     (one_file_world\<lparr>fs := [''inbound/b.mp4'' \<mapsto> DeadLink]\<rparr>) =
     Inr (False, one_file_world\<lparr>fs := [''inbound/b.mp4'' \<mapsto> DeadLink]\<rparr>)"
  using safe_move_absent_source [of None _ never never "''approved''" 6 400]
    safe_move_absent_source [of "Some []" _ never never "''approved''" 6 400]
    safe_move_absent_source [of "Some ''inbound/b.mp4''" one_file_world never never
      "''approved''" 6 400]
    safe_move_absent_source [of "Some ''inbound/b.mp4''"
      "one_file_world\<lparr>fs := [''inbound/b.mp4'' \<mapsto> DeadLink]\<rparr>" never never
      "''approved''" 6 400]
  by (simp add: path_exists_def one_file_world_def)

section \<open>Properties of approve and reject\<close>

subsection \<open>What one decision does to the log of moves\<close>









subsection \<open>Idempotence\<close>



subsection \<open>A move that fails\<close>

text \<open>
  Claim C9. When the current file exists and all six attempts of the move raise, approve and
  reject leave every field of the application as it was: the current file keeps its value,
  the Approve, Reject and Play buttons keep their state and the countdown stays scheduled
  with the time it had. The artifact is still where it was, and no notice is shown. (The
  same holds when \<^verbatim>\<open>os.makedirs\<close> raises before any attempt.)
\<close>

theorem failed_move_keeps_session:
  assumes "file_present a w" and "\<forall>i<6. mv (move_calls w + i) \<noteq> None"
  shows "fst (resolve mv mk d (a, w)) = a \<and>
         fst (approve_current mv mk (a, w)) = a \<and> fst (reject_current mv mk (a, w)) = a \<and>
         file_present a (snd (resolve mv mk d (a, w))) \<and>
         notices (snd (resolve mv mk d (a, w))) = notices w"
proof -
  from assms(1) obtain p where p: "current_file a = Some p" "p \<noteq> []" "path_exists (fs w) p"
    by (auto simp: file_present_def split: option.splits)
  have r: "fst (move_current mv mk dd n (a, w)) = a \<and>
           file_present a (snd (move_current mv mk dd n (a, w))) \<and>
           notices (snd (move_current mv mk dd n (a, w))) = notices w" for dd n
  proof (cases "makedirs mk dd w")
    case (Inl e)
    from safe_move_raises[OF p(2,3) Inl, of mv] assms(1) p(1) show ?thesis
      by (simp add: move_current_def report_def file_present_def)
  next
    case (Inr w1)
    from p(3) have ex: "fs w p \<noteq> None" by (simp add: path_exists_def)
    from safe_move_all_fail[OF p(2,3) Inr assms(2)] p makedirs_result[OF Inr] ex
    show ?thesis
      by (simp add: move_current_def file_present_def path_exists_def
          del: upt_Suc replicate_Suc)
  qed
  show ?thesis
    using r[of APPROVED_DIR ApprovedNotice] r[of DELETE_DAILY_DIR RejectedNotice]
    by (cases d) (simp_all add: resolve_def approve_current_def reject_current_def)
qed

theorem failed_move_keeps_session_witness:
  "file_present awaiting_app one_file_world \<and>
   approve_current (\<lambda>k. Some ''locked'') never (awaiting_app, one_file_world) =
     (awaiting_app,
      one_file_world\<lparr>fs := [''inbound/recording_7.mp4'' \<mapsto> File, ''approved'' \<mapsto> Dir],
        logged := [MoveAttemptFailed 1 ''locked'', MoveAttemptFailed 2 ''locked'',
          MoveAttemptFailed 3 ''locked'', MoveAttemptFailed 4 ''locked'',
          MoveAttemptFailed 5 ''locked'', MoveAttemptFailed 6 ''locked'',
          FailedToMove ''inbound/recording_7.mp4'' ''approved/recording_7.mp4''],
        sleeps := [400, 400, 400, 400, 400, 400], move_calls := 6\<rparr>) \<and>
   fst (reject_current (\<lambda>k. Some ''locked'') never (awaiting_app, one_file_world)) = awaiting_app"
  using failed_move_keeps_session [of awaiting_app one_file_world "\<lambda>k. Some ''locked''" never Approved]
  by (simp add: resolve_def approve_current_def reject_current_def move_current_def
      file_present_def safe_move_def safe_move_with_def path_exists_def makedirs_def isdir_def
      path_join_def basename_def log_def shutil_move_raises_def shutil_move_ok_def
      cancel_post_timeout_def disable_disposition_def show_notice_def report_def
      APPROVED_DIR_def DELETE_DAILY_DIR_def
      awaiting_app_def one_file_world_def never_def move_loop_numeral)

section \<open>Properties of the disposition countdown\<close>

lemma start_post_timeout_fields:
  "post_timeout_left (start_post_timeout a) = POST_RECORD_TIMEOUT"
  "post_timeout_job (start_post_timeout a)"
  "status_var (start_post_timeout a) = StatusAwaiting POST_RECORD_TIMEOUT"
  "current_file (start_post_timeout a) = current_file a"
  "recording (start_post_timeout a) = recording a"
  "approve_btn (start_post_timeout a) = approve_btn a"
  "reject_btn (start_post_timeout a) = reject_btn a"
  "play_btn (start_post_timeout a) = play_btn a"
  by (simp_all add: start_post_timeout_def cancel_post_timeout_def)




section \<open>Properties of the worker\<close>

lemma outpath_nonempty: "outpath env \<noteq> []"
  by (simp add: outpath_def path_join_def INBOUND_DIR_def)

lemma finish_snd: "snd (record_worker_finish env (a, w)) = world_after_take env a w"
  by (simp add: record_worker_finish_def Let_def log_def world_after_take_def)

lemma finish_fst:
  "fst (record_worker_finish env (a, w)) =
     (if file_present a (world_after_take env a w) then
        start_post_timeout (a\<lparr>recording := False, start_btn := True, stop_btn := False,
          status_var := StatusRecordingFinished, preview_running := True,
          approve_btn := True, reject_btn := True, play_btn := True\<rparr>)
      else a\<lparr>recording := False, start_btn := True, stop_btn := False,
          status_var := StatusRecordingFinished, preview_running := True\<rparr>)"
proof -
  have "record_worker_finish env (a, w) =
     (let w4 = world_after_take env a w;
          a2 = a\<lparr>recording := False, start_btn := True, stop_btn := False,
                 status_var := StatusRecordingFinished, preview_running := True\<rparr>
      in if file_present a2 w4 then
           (start_post_timeout (a2\<lparr>approve_btn := True, reject_btn := True, play_btn := True\<rparr>), w4)
         else (a2, w4))"
    by (cases "current_file a")
       (simp_all add: record_worker_finish_def Let_def log_def world_after_take_def
          open_preview_def file_present_def)
  then show ?thesis
    by (simp add: Let_def file_present_def)
qed

lemma finish_current_file:
  "current_file (fst (record_worker_finish env (a, w))) = current_file a"
  by (simp add: finish_fst start_post_timeout_fields)

lemma finish_world:
  "logged (snd (record_worker_finish env (a, w))) =
     logged w @ (if stopped_by_user (supervise env) then [UserStopped] else []) @
     [RecordingFinished (current_file a)]"
  by (simp add: finish_snd world_after_take_def)

lemma record_worker_launched:
  "popen_raises env = None \<Longrightarrow>
   record_worker env (a, w) =
     record_worker_finish env
       (a\<lparr>preview_running := False, current_file := Some (outpath env), recording := True,
          start_btn := False, stop_btn := True, status_var := StatusRecording\<rparr>,
        w\<lparr>logged := logged w @ [StartingFfmpeg (outpath env)]\<rparr>)"
  by (simp add: record_worker_def record_worker_launch_def Let_def close_preview_def log_def)

subsection \<open>Starting a recording\<close>

text \<open>
  Claim C2, as the code has it. The guard of \<^verbatim>\<open>start_recording_thread\<close> is the flag
  \<^verbatim>\<open>self.recording\<close>: while the session is \<open>Recording\<close>, start changes nothing; in every other
  phase, \<open>AwaitingDisposition\<close> included, start runs the worker, which takes a new output
  path as the current file and logs the launch of the encoder.
\<close>

theorem start_gated_by_recording_flag:
  "(phase (fst s) = Recording \<longrightarrow> start_recording_thread env s = s) \<and>
   (phase (fst s) \<noteq> Recording \<longrightarrow>
      start_recording_thread env s = record_worker env s \<and>
      current_file (fst (start_recording_thread env s)) = Some (outpath env) \<and>
      take (length (logged (snd s)) + 1) (logged (snd (start_recording_thread env s))) =
        logged (snd s) @ [StartingFfmpeg (outpath env)])"
proof (cases s)
  case (Pair a w)
  have r: "phase a = Recording \<longleftrightarrow> recording a"
    by (simp add: phase_def)
  have c: "current_file (fst (record_worker env (a, w))) = Some (outpath env)"
    by (simp add: record_worker_def record_worker_launch_def finish_current_file Let_def
        open_preview_def close_preview_def split: option.splits)
  have l: "take (Suc (length (logged w))) (logged (snd (record_worker env (a, w)))) =
        logged w @ [StartingFfmpeg (outpath env)]"
    by (simp add: record_worker_def record_worker_launch_def finish_world Let_def
        log_def split: option.splits)
  from r c l Pair show ?thesis
    by (simp add: start_recording_thread_def)
qed

theorem start_gated_by_recording_flag_witness:
  "phase (fst (record_worker good_take (idle_app, fresh_world))) \<noteq> Recording \<and>
   take 4 (logged (snd (start_recording_thread empty_take
       (record_worker good_take (idle_app, fresh_world))))) =
     [StartingFfmpeg ''inbound/recording_7.mp4'', UserStopped,
      RecordingFinished (Some ''inbound/recording_7.mp4''),
      StartingFfmpeg ''inbound/recording_9.mp4''] \<and>
   record_worker_launch good_take (idle_app, fresh_world) =
     Inr (idle_app\<lparr>preview_running := False, current_file := Some ''inbound/recording_7.mp4'',
            recording := True, start_btn := False, stop_btn := True,
            status_var := StatusRecording\<rparr>,
          fresh_world\<lparr>logged := [StartingFfmpeg ''inbound/recording_7.mp4'']\<rparr>) \<and>
   phase (idle_app\<lparr>preview_running := False, current_file := Some ''inbound/recording_7.mp4'',
            recording := True, start_btn := False, stop_btn := True,
            status_var := StatusRecording\<rparr>) = Recording \<and>
   start_recording_thread empty_take
     (idle_app\<lparr>preview_running := False, current_file := Some ''inbound/recording_7.mp4'',
            recording := True, start_btn := False, stop_btn := True,
            status_var := StatusRecording\<rparr>,
      fresh_world\<lparr>logged := [StartingFfmpeg ''inbound/recording_7.mp4'']\<rparr>) =
     (idle_app\<lparr>preview_running := False, current_file := Some ''inbound/recording_7.mp4'',
            recording := True, start_btn := False, stop_btn := True,
            status_var := StatusRecording\<rparr>,
      fresh_world\<lparr>logged := [StartingFfmpeg ''inbound/recording_7.mp4'']\<rparr>)"
  using start_gated_by_recording_flag [of "record_worker good_take (idle_app, fresh_world)" empty_take]
    start_gated_by_recording_flag [of
      "(idle_app\<lparr>preview_running := False, current_file := Some ''inbound/recording_7.mp4'',
            recording := True, start_btn := False, stop_btn := True,
            status_var := StatusRecording\<rparr>,
        fresh_world\<lparr>logged := [StartingFfmpeg ''inbound/recording_7.mp4'']\<rparr>)" empty_take]
  by (simp add: start_recording_thread_def record_worker_def record_worker_launch_def
      record_worker_finish_def supervise_def wait_loop.simps stop_pressed_def polled_dead_def wait_end_def exit_time_def
      MAX_RECORD_SECONDS_def outpath_def str_of_nat.simps digit_def path_join_def INBOUND_DIR_def
      file_present_def path_exists_def phase_def
      start_post_timeout_def cancel_post_timeout_def POST_RECORD_TIMEOUT_def
      open_preview_def close_preview_def log_def
      idle_app_def fresh_world_def good_take_def empty_take_def Let_def)

text \<open>
  Claim C2, as stated, fails: after a first recording the session awaits its disposition; a
  start is then accepted, replaces the current file and launches the encoder again.
\<close>

theorem start_while_awaiting_counterexample:
  "phase (fst (record_worker good_take (idle_app, fresh_world))) = AwaitingDisposition \<and>
   start_recording_thread empty_take (record_worker good_take (idle_app, fresh_world)) \<noteq>
     record_worker good_take (idle_app, fresh_world) \<and>
   current_file (fst (record_worker good_take (idle_app, fresh_world))) =
     Some ''inbound/recording_7.mp4'' \<and>
   current_file (fst (start_recording_thread empty_take
     (record_worker good_take (idle_app, fresh_world)))) = Some ''inbound/recording_9.mp4'' \<and>
   logged (snd (start_recording_thread empty_take
     (record_worker good_take (idle_app, fresh_world)))) =
     [StartingFfmpeg ''inbound/recording_7.mp4'', UserStopped,
      RecordingFinished (Some ''inbound/recording_7.mp4''),
      StartingFfmpeg ''inbound/recording_9.mp4'',
      RecordingFinished (Some ''inbound/recording_9.mp4'')]"
  by (simp add: start_recording_thread_def record_worker_def record_worker_launch_def
      record_worker_finish_def supervise_def wait_loop.simps stop_pressed_def polled_dead_def wait_end_def exit_time_def
      MAX_RECORD_SECONDS_def outpath_def str_of_nat.simps digit_def path_join_def INBOUND_DIR_def
      file_present_def path_exists_def phase_def
      start_post_timeout_def cancel_post_timeout_def POST_RECORD_TIMEOUT_def
      open_preview_def close_preview_def log_def
      idle_app_def fresh_world_def good_take_def empty_take_def Let_def)

subsection \<open>The end of a recording\<close>

text \<open>
  Claim C3, as the code has it. When the encoder was launched, the worker ends with
  \<^verbatim>\<open>self.recording\<close> cleared. If the output file exists, Approve, Reject and Play are enabled
  and the countdown is scheduled at 30 seconds. If it does not, the three buttons and the
  countdown are left as they were, no notice is shown, the status reads "Recording
  finished" and the log has the same "Recording finished" line as after any recording.
  From \<open>Idle\<close> the session so goes to \<open>AwaitingDisposition\<close> exactly when the file exists,
  and back to \<open>Idle\<close> otherwise.
\<close>

theorem window_opens_iff_file:
  assumes "popen_raises env = None"
  shows "(let r = record_worker env (a, w);
              present = path_exists (fs (snd r)) (outpath env)
          in \<not> recording (fst r) \<and> current_file (fst r) = Some (outpath env) \<and>
             (present \<longrightarrow>
                approve_btn (fst r) \<and> reject_btn (fst r) \<and> play_btn (fst r) \<and>
                post_timeout_job (fst r) \<and> post_timeout_left (fst r) = 30 \<and>
                status_var (fst r) = StatusAwaiting 30) \<and>
             (\<not> present \<longrightarrow>
                approve_btn (fst r) = approve_btn a \<and> reject_btn (fst r) = reject_btn a \<and>
                play_btn (fst r) = play_btn a \<and>
                post_timeout_job (fst r) = post_timeout_job a \<and>
                post_timeout_left (fst r) = post_timeout_left a \<and>
                status_var (fst r) = StatusRecordingFinished \<and>
                notices (snd r) = notices w \<and>
                logged (snd r) = logged w @ [StartingFfmpeg (outpath env)] @
                  (if stopped_by_user (supervise env) then [UserStopped] else []) @
                  [RecordingFinished (Some (outpath env))]) \<and>
             (phase a = Idle \<longrightarrow>
                phase (fst r) = (if present then AwaitingDisposition else Idle)))"
proof -
  let ?a1 = "a\<lparr>preview_running := False, current_file := Some (outpath env), recording := True,
          start_btn := False, stop_btn := True, status_var := StatusRecording\<rparr>"
  let ?w1 = "w\<lparr>logged := logged w @ [StartingFfmpeg (outpath env)]\<rparr>"
  have r: "record_worker env (a, w) = record_worker_finish env (?a1, ?w1)"
    by (rule record_worker_launched[OF assms])
  have p: "file_present ?a1 (world_after_take env ?a1 ?w1) =
           path_exists (fs (world_after_take env ?a1 ?w1)) (outpath env)"
    by (simp add: file_present_def outpath_nonempty)
  show ?thesis
    unfolding Let_def r finish_snd finish_fst p
    by (simp add: start_post_timeout_fields POST_RECORD_TIMEOUT_def world_after_take_def
        phase_def)
qed

theorem window_opens_iff_file_witness:
  "popen_raises good_take = None \<and> popen_raises empty_take = None \<and>
   phase idle_app = Idle \<and>
   path_exists (fs (snd (record_worker good_take (idle_app, fresh_world)))) (outpath good_take) \<and>
   phase (fst (record_worker good_take (idle_app, fresh_world))) = AwaitingDisposition \<and>
   post_timeout_left (fst (record_worker good_take (idle_app, fresh_world))) = 30 \<and>
   approve_btn (fst (record_worker good_take (idle_app, fresh_world))) \<and>
   \<not> path_exists (fs (snd (record_worker empty_take (idle_app, fresh_world)))) (outpath empty_take) \<and>
   phase (fst (record_worker empty_take (idle_app, fresh_world))) = Idle \<and>
   status_var (fst (record_worker empty_take (idle_app, fresh_world))) = StatusRecordingFinished \<and>
   \<not> approve_btn (fst (record_worker empty_take (idle_app, fresh_world)))"
  using window_opens_iff_file [of good_take idle_app fresh_world]
    window_opens_iff_file [of empty_take idle_app fresh_world]
  by (simp add: record_worker_def record_worker_launch_def
      record_worker_finish_def supervise_def wait_loop.simps stop_pressed_def polled_dead_def wait_end_def exit_time_def
      MAX_RECORD_SECONDS_def outpath_def str_of_nat.simps digit_def path_join_def INBOUND_DIR_def
      file_present_def path_exists_def phase_def
      start_post_timeout_def cancel_post_timeout_def POST_RECORD_TIMEOUT_def
      open_preview_def close_preview_def log_def
      idle_app_def fresh_world_def good_take_def empty_take_def Let_def)

text \<open>
  Claim C3, as stated, fails in its status: a recording that leaves no file ends with the
  status "Recording finished", and nothing is logged or shown that reports a failure.
\<close>

theorem no_file_counterexample:
  "record_worker empty_take (idle_app, fresh_world) =
     (idle_app\<lparr>current_file := Some ''inbound/recording_9.mp4'',
               status_var := StatusRecordingFinished\<rparr>,
      fresh_world\<lparr>logged := [StartingFfmpeg ''inbound/recording_9.mp4'',
                               RecordingFinished (Some ''inbound/recording_9.mp4'')]\<rparr>)"
  by (simp add: record_worker_def record_worker_launch_def
      record_worker_finish_def supervise_def wait_loop.simps stop_pressed_def polled_dead_def wait_end_def exit_time_def
      MAX_RECORD_SECONDS_def outpath_def str_of_nat.simps digit_def path_join_def INBOUND_DIR_def
      file_present_def path_exists_def
      open_preview_def close_preview_def log_def
      idle_app_def fresh_world_def empty_take_def Let_def)

subsection \<open>The duration bound\<close>

lemma wait_loop_full:
  "t \<le> 60000 \<Longrightarrow> 100 dvd t \<Longrightarrow>
   (\<forall>u<60000. \<not> stop_pressed env u \<and> \<not> polled_dead env None u) \<Longrightarrow>
   wait_loop env t = 60000"
proof (induction env t rule: wait_loop.induct)
  case (1 env t)
  show ?case
  proof (cases "t = 60000")
    case True
    then show ?thesis
      by (subst wait_loop.simps) (simp add: MAX_RECORD_SECONDS_def)
  next
    case False
    with "1.prems" have lt: "t < 60000" by simp
    with "1.prems" have c: "\<not> stop_pressed env t \<and> \<not> polled_dead env None t" by blast
    from lt have n: "\<not> MAX_RECORD_SECONDS * 1000 \<le> t" by (simp add: MAX_RECORD_SECONDS_def)
    from "1.prems"(2) lt have le: "t + 100 \<le> 60000"
      by (elim dvdE) auto
    from "1.prems"(2) have d: "100 dvd t + 100" by simp
    have "wait_loop env (t + 100) = 60000"
      using "1.IH" c n le d "1.prems"(3) by blast
    then show ?thesis
      using c n by (subst wait_loop.simps) simp
  qed
qed

lemma supervise_at_maximum:
  assumes "\<forall>s. stop_at env = Some s \<longrightarrow> 60000 < s"
    and "\<forall>e. exits_at env = Some e \<longrightarrow> 60000 < e"
  shows "supervise env =
      \<lparr>loop_exit = 60000,
       stopped_by_user = (\<exists>s. stop_at env = Some s \<and> s \<le> wait_end env 60000 60000),
       sent = [Terminate, WaitTimeout 2000] @
         (if \<exists>s. stop_at env = Some s \<and> s \<le> wait_end env 60000 60000 \<and>
                \<not> polled_dead env (Some 60000) s
          then [Terminate] else []),
       alive_after = (\<not> polled_dead env (Some 60000) 62000)\<rparr>"
proof -
  have np: "\<not> stop_pressed env u" if "u \<le> 60000" for u
    using assms(1) that by (auto simp: stop_pressed_def split: option.splits)
  have nd: "\<not> polled_dead env None u" if "u \<le> 60000" for u
    using assms(2) that by (auto simp: polled_dead_def split: option.splits)
  have T: "wait_loop env 0 = 60000"
    by (rule wait_loop_full) (simp_all add: np nd)
  show ?thesis
  proof (cases "stop_at env")
    case None
    then show ?thesis
      using np[of 60000] nd[of 60000] by (simp add: supervise_def Let_def T)
  next
    case (Some s)
    with assms(1) have "60000 < s" by simp
    with Some show ?thesis
      using np[of 60000] nd[of 60000] by (simp add: supervise_def Let_def T)
  qed
qed

text \<open>
  Claim C1, as the code has it. When neither Stop nor the encoder's own exit comes within
  the first 60 seconds, the wait loop is left at 60 seconds; the worker then calls
  \<^verbatim>\<open>terminate()\<close> once (on Windows the forced \<^verbatim>\<open>TerminateProcess\<close>) and waits for the encoder
  during at most 2 seconds. That is all the worker asks: there is no second step when the
  wait gives up. The only other request is the \<^verbatim>\<open>terminate()\<close> of \<^verbatim>\<open>stop_recording\<close>, when
  Stop is pressed while the worker waits and the encoder is still there. The encoder is
  still running when the wait has ended exactly when it has neither exited by itself nor
  finished terminating within the 2 seconds: one that is gone within 2 seconds of the
  request is gone, one that takes longer is still there and nothing more is done about it.
\<close>

theorem supervise_full_duration:
  assumes "\<forall>s. stop_at env = Some s \<longrightarrow> 60000 < s"
    and "\<forall>e. exits_at env = Some e \<longrightarrow> 60000 < e"
  shows "loop_exit (supervise env) = MAX_RECORD_SECONDS * 1000 \<and>
         (stopped_by_user (supervise env) \<longleftrightarrow>
            (\<exists>s. stop_at env = Some s \<and> s \<le> wait_end env 60000 60000)) \<and>
         sent (supervise env) = [Terminate, WaitTimeout 2000] @
           (if \<exists>s. stop_at env = Some s \<and> s \<le> wait_end env 60000 60000 \<and>
                  \<not> polled_dead env (Some 60000) s
            then [Terminate] else []) \<and>
         Kill \<notin> set (sent (supervise env)) \<and>
         (alive_after (supervise env) \<longleftrightarrow> \<not> polled_dead env (Some 60000) 62000) \<and>
         ((\<exists>d. term_delay env = Some d \<and> d \<le> 2000) \<longrightarrow> \<not> alive_after (supervise env)) \<and>
         ((\<forall>d. term_delay env = Some d \<longrightarrow> 2000 < d) \<and>
          (\<forall>e. exits_at env = Some e \<longrightarrow> 62000 < e) \<longrightarrow> alive_after (supervise env)) \<and>
         (popen_raises env = None \<longrightarrow>
            signals (snd (record_worker env (a, w))) = signals w @ sent (supervise env))"
proof -
  note s = supervise_at_maximum[OF assms]
  have w: "signals (snd (record_worker env (a, w))) = signals w @ sent (supervise env)"
    if "popen_raises env = None"
    unfolding record_worker_launched[OF that] finish_snd
    by (simp add: world_after_take_def)
  have k: "Kill \<notin> set (sent (supervise env))"
    by (simp add: s)
  have al: "alive_after (supervise env) \<longleftrightarrow> \<not> polled_dead env (Some 60000) 62000"
    by (simp add: s)
  have a1: "\<not> alive_after (supervise env)" if "\<exists>d. term_delay env = Some d \<and> d \<le> 2000"
    using that by (auto simp: al polled_dead_def)
  have a2: "alive_after (supervise env)"
    if "(\<forall>d. term_delay env = Some d \<longrightarrow> 2000 < d) \<and> (\<forall>e. exits_at env = Some e \<longrightarrow> 62000 < e)"
    using that by (auto simp: al polled_dead_def split: option.splits)
  have l: "loop_exit (supervise env) = MAX_RECORD_SECONDS * 1000"
    by (simp add: s MAX_RECORD_SECONDS_def)
  have st: "stopped_by_user (supervise env) \<longleftrightarrow>
            (\<exists>s. stop_at env = Some s \<and> s \<le> wait_end env 60000 60000)"
    by (simp add: s)
  have se: "sent (supervise env) = [Terminate, WaitTimeout 2000] @
           (if \<exists>s. stop_at env = Some s \<and> s \<le> wait_end env 60000 60000 \<and>
                  \<not> polled_dead env (Some 60000) s
            then [Terminate] else [])"
    by (simp add: s)
  from l st se k al a1 a2 w show ?thesis by blast
qed

theorem supervise_full_duration_witness:
  "alive_after (supervise slow_take) \<and>
   loop_exit (supervise slow_take) = 60000 \<and>
   sent (supervise slow_take) = [Terminate, WaitTimeout 2000] \<and>
   \<not> alive_after (supervise (slow_take\<lparr>term_delay := Some 50\<rparr>)) \<and>
   sent (supervise (slow_take\<lparr>term_delay := Some 50\<rparr>)) = [Terminate, WaitTimeout 2000] \<and>
   stop_at (slow_take\<lparr>stop_at := Some 61000\<rparr>) = Some 61000 \<and>
   stopped_by_user (supervise (slow_take\<lparr>stop_at := Some 61000\<rparr>)) \<and>
   sent (supervise (slow_take\<lparr>stop_at := Some 61000\<rparr>)) =
     [Terminate, WaitTimeout 2000, Terminate] \<and>
   exits_at (slow_take\<lparr>stop_at := Some 70000, exits_at := Some 61000\<rparr>) = Some 61000 \<and>
   loop_exit (supervise (slow_take\<lparr>stop_at := Some 70000, exits_at := Some 61000\<rparr>)) = 60000 \<and>
   \<not> stopped_by_user (supervise (slow_take\<lparr>stop_at := Some 70000, exits_at := Some 61000\<rparr>)) \<and>
   \<not> alive_after (supervise (slow_take\<lparr>stop_at := Some 70000, exits_at := Some 61000\<rparr>))"
  using supervise_full_duration [of slow_take idle_app fresh_world]
    supervise_full_duration [of "slow_take\<lparr>term_delay := Some 50\<rparr>" idle_app fresh_world]
    supervise_full_duration [of "slow_take\<lparr>stop_at := Some 61000\<rparr>" idle_app fresh_world]
    supervise_full_duration [of "slow_take\<lparr>stop_at := Some 70000, exits_at := Some 61000\<rparr>"
      idle_app fresh_world]
  by (simp add: slow_take_def MAX_RECORD_SECONDS_def polled_dead_def wait_end_def exit_time_def)

text \<open>
  Claim C1, as stated, fails: for an encoder that takes 5 seconds to be gone after
  \<^verbatim>\<open>terminate()\<close> (the case for which the source puts a time-out on its wait), the worker
  gives up after 2 seconds and asks nothing more, and the encoder is still running 62
  seconds after the start.
\<close>

theorem slow_encoder_counterexample:
  "supervise slow_take =
     \<lparr>loop_exit = 60000, stopped_by_user = False, sent = [Terminate, WaitTimeout 2000],
      alive_after = True\<rparr>"
proof -
  have a: "\<forall>s. stop_at slow_take = Some s \<longrightarrow> 60000 < s" by (simp add: slow_take_def)
  have b: "\<forall>e. exits_at slow_take = Some e \<longrightarrow> 60000 < e" by (simp add: slow_take_def)
  show ?thesis
    unfolding supervise_at_maximum[OF a b]
    by (simp add: slow_take_def polled_dead_def)
qed

section \<open>Properties of the startup purge\<close>

lemma entry_inj: "entry n = entry m \<longleftrightarrow> n = m"
  by (simp add: entry_def path_join_def)

lemma entry_not_below:
  assumes "CHR ''/'' \<notin> set m"
  shows "\<not> below (entry n) (entry m)"
proof
  assume "below (entry n) (entry m)"
  then have "take (length n + 1) m = n @ ''/''"
    by (simp add: below_def entry_def path_join_def)
  then have "CHR ''/'' \<in> set (take (length n + 1) m)" by simp
  then have "CHR ''/'' \<in> set m" by (rule in_set_takeD)
  with assms show False by simp
qed

lemma cleanup_loop_spec:
  assumes "distinct names" and "\<forall>n\<in>set names. CHR ''/'' \<notin> set n"
  shows "\<exists>w'. cleanup_loop rm names k w = (k + length (filter (deletes rm (fs w)) names), w') \<and>
           logged w' = logged w @
             map (\<lambda>n. CleanupError (entry n) (the (rm (entry n)))) (filter (fails_on rm (fs w)) names) \<and>
           sleeps w' = sleeps w \<and> notices w' = notices w \<and> move_calls w' = move_calls w \<and>
           signals w' = signals w \<and> tracebacks w' = tracebacks w \<and>
           (\<forall>p. fs w' p = (if purged rm (fs w) names p then None else fs w p))"
  using assms
proof (induction names arbitrary: k w)
  case Nil
  then show ?case by (simp add: purged_def)
next
  case (Cons n names)
  define w1 where "w1 =
     (if isfile (fs w) (entry n) then
        (case rm (entry n) of None \<Rightarrow> os_remove (entry n) w
         | Some e \<Rightarrow> log (CleanupError (entry n) e) w)
      else if isdir (fs w) (entry n) then
        (case rm (entry n) of None \<Rightarrow> rmtree (entry n) w
         | Some e \<Rightarrow> log (CleanupError (entry n) e) w)
      else w)"
  define k1 where "k1 = (if deletes rm (fs w) n then k + 1 else k)"
  have step: "cleanup_loop rm (n # names) k w = cleanup_loop rm names k1 w1"
    by (auto simp: w1_def k1_def deletes_def entry_def Let_def isfile_def isdir_def split: option.splits)
  have one: "fs w1 p = (if deletes rm (fs w) n \<and> (p = entry n \<or> (isdir (fs w) (entry n) \<and> below (entry n) p))
                        then None else fs w p)" for p
    by (auto simp: w1_def os_remove_def rmtree_def log_def deletes_def isfile_def isdir_def
        split: option.splits)
  have lg: "logged w1 = logged w @
      (if fails_on rm (fs w) n then [CleanupError (entry n) (the (rm (entry n)))] else [])"
    by (auto simp: w1_def os_remove_def rmtree_def log_def fails_on_def isfile_def isdir_def
        split: option.splits)
  have rest: "sleeps w1 = sleeps w" "notices w1 = notices w" "move_calls w1 = move_calls w"
    "signals w1 = signals w" "tracebacks w1 = tracebacks w"
    by (auto simp: w1_def os_remove_def rmtree_def log_def split: option.splits)
  from Cons.prems have d: "distinct names" and ns: "\<forall>m\<in>set names. CHR ''/'' \<notin> set m"
    and nn: "n \<notin> set names" and sn: "CHR ''/'' \<notin> set n" by auto
  have same: "fs w1 (entry m) = fs w (entry m)" if "m \<in> set names" for m
  proof -
    from that ns nn have "CHR ''/'' \<notin> set m" "m \<noteq> n" by auto
    then show ?thesis
      using entry_not_below[of m n] by (simp add: one entry_inj)
  qed
  have dl: "deletes rm (fs w1) m = deletes rm (fs w) m" if "m \<in> set names" for m
    by (simp add: deletes_def isfile_def isdir_def same[OF that])
  have dr: "isdir (fs w1) (entry m) = isdir (fs w) (entry m)" if "m \<in> set names" for m
    by (simp add: isdir_def same[OF that])
  have f1: "filter (deletes rm (fs w1)) names = filter (deletes rm (fs w)) names"
    by (rule filter_cong) (auto simp: dl)
  have f2: "filter (fails_on rm (fs w1)) names = filter (fails_on rm (fs w)) names"
    by (rule filter_cong) (auto simp: fails_on_def isfile_def isdir_def same)
  have pg: "purged rm (fs w1) names p = purged rm (fs w) names p" for p
    unfolding purged_def using dl dr by (metis (no_types, lifting))
  from Cons.IH[OF d ns, of k1 w1] obtain w' where
    r: "cleanup_loop rm names k1 w1 = (k1 + length (filter (deletes rm (fs w1)) names), w')"
    and l: "logged w' = logged w1 @
             map (\<lambda>n. CleanupError (entry n) (the (rm (entry n)))) (filter (fails_on rm (fs w1)) names)"
    and o: "sleeps w' = sleeps w1" "notices w' = notices w1" "move_calls w' = move_calls w1"
      "signals w' = signals w1" "tracebacks w' = tracebacks w1"
    and i: "\<forall>p. fs w' p = (if purged rm (fs w1) names p then None else fs w1 p)"
    by blast
  have c1: "cleanup_loop rm (n # names) k w =
      (k + length (filter (deletes rm (fs w)) (n # names)), w')"
    using step r f1 by (simp add: k1_def)
  have c2: "logged w' = logged w @
      map (\<lambda>n. CleanupError (entry n) (the (rm (entry n)))) (filter (fails_on rm (fs w)) (n # names))"
    using l lg f2 by simp
  have c3: "\<forall>p. fs w' p = (if purged rm (fs w) (n # names) p then None else fs w p)"
  proof
    fix p
    have "purged rm (fs w) (n # names) p \<longleftrightarrow>
        (deletes rm (fs w) n \<and> (p = entry n \<or> (isdir (fs w) (entry n) \<and> below (entry n) p))) \<or>
        purged rm (fs w) names p"
      by (auto simp: purged_def)
    moreover from i have "fs w' p = (if purged rm (fs w1) names p then None else fs w1 p)"
      by blast
    ultimately show "fs w' p = (if purged rm (fs w) (n # names) p then None else fs w p)"
      unfolding pg one[of p]
      by (cases "purged rm (fs w) names p";
          cases "deletes rm (fs w) n \<and> (p = entry n \<or> (isdir (fs w) (entry n) \<and> below (entry n) p))")
         simp_all
  qed
  from c1 c2 c3 o rest show ?case by simp
qed

text \<open>
  Claim C7, as the code has it. Let \<open>names\<close> be the listing of the directory (distinct plain
  names). The purge visits every name: an entry that is a file or a directory is deleted, a
  file with \<^verbatim>\<open>os.remove\<close> and a directory with everything below it; when the deletion
  raises, one error line with the path and the error is logged and the loop goes on with
  the next name; an entry that is neither a file nor a directory is passed over, with no
  deletion and no log line. The result is the number of entries deleted, and the last line
  logged carries that number. Afterwards the file system is what it was, less the deleted
  entries and what was below the deleted directories.
\<close>

theorem cleanup_purges_files_and_directories:
  assumes "distinct names" and "\<forall>n\<in>set names. CHR ''/'' \<notin> set n"
  shows "(let r = cleanup_delete_daily rm names w in
          fst r = length (filter (deletes rm (fs w)) names) \<and>
          logged (snd r) = logged w @
            map (\<lambda>n. CleanupError (entry n) (the (rm (entry n))))
              (filter (fails_on rm (fs w)) names) @
            [CleanupRemoved (fst r)] \<and>
          (\<forall>p. fs (snd r) p = (if purged rm (fs w) names p then None else fs w p)) \<and>
          (\<forall>n\<in>set names.
             (isfile (fs w) (entry n) \<or> isdir (fs w) (entry n)) \<and> rm (entry n) = None \<longrightarrow>
             fs (snd r) (entry n) = None) \<and>
          (\<forall>n\<in>set names. isdir (fs w) (entry n) \<and> rm (entry n) = None \<longrightarrow>
             (\<forall>p. below (entry n) p \<longrightarrow> fs (snd r) p = None)) \<and>
          (\<forall>n\<in>set names. \<not> deletes rm (fs w) n \<longrightarrow> fs (snd r) (entry n) = fs w (entry n)))"
proof -
  from cleanup_loop_spec[OF assms, of rm 0 w] obtain w' where
    r: "cleanup_loop rm names 0 w = (length (filter (deletes rm (fs w)) names), w')"
    and l: "logged w' = logged w @
             map (\<lambda>n. CleanupError (entry n) (the (rm (entry n)))) (filter (fails_on rm (fs w)) names)"
    and i: "\<forall>p. fs w' p = (if purged rm (fs w) names p then None else fs w p)"
    by auto
  have gone: "fs w' (entry n) = None"
    if "n \<in> set names" "(isfile (fs w) (entry n) \<or> isdir (fs w) (entry n)) \<and> rm (entry n) = None" for n
  proof -
    from that have "purged rm (fs w) names (entry n)"
      by (auto simp: purged_def deletes_def)
    with i show ?thesis by simp
  qed
  have sub: "fs w' p = None"
    if "n \<in> set names" "isdir (fs w) (entry n) \<and> rm (entry n) = None" "below (entry n) p" for n p
  proof -
    from that have "purged rm (fs w) names p"
      by (auto simp: purged_def deletes_def)
    with i show ?thesis by simp
  qed
  have kept: "fs w' (entry n) = fs w (entry n)"
    if "n \<in> set names" "\<not> deletes rm (fs w) n" for n
  proof -
    from that(1) assms(2) have "CHR ''/'' \<notin> set n" by blast
    then have "\<not> below (entry m) (entry n)" for m by (rule entry_not_below)
    with that(2) have "\<not> purged rm (fs w) names (entry n)"
      by (auto simp: purged_def entry_inj)
    with i show ?thesis by simp
  qed
  show ?thesis
    using r l i gone sub kept by (simp add: cleanup_delete_daily_def Let_def log_def)
qed

theorem cleanup_purges_files_and_directories_witness:
  "distinct [''old.mp4'', ''clips'', ''held.mp4'', ''stale''] \<and>
   fst (cleanup_delete_daily (\<lambda>p. if p = ''delete_daily/held.mp4'' then Some ''in use'' else None)
      [''old.mp4'', ''clips'', ''held.mp4'', ''stale'']
      (fresh_world\<lparr>fs := [''delete_daily/old.mp4'' \<mapsto> File, ''delete_daily/clips'' \<mapsto> Dir,
        ''delete_daily/clips/a.mp4'' \<mapsto> File, ''delete_daily/held.mp4'' \<mapsto> File,
        ''delete_daily/stale'' \<mapsto> DeadLink]\<rparr>)) = 2 \<and>
   logged (snd (cleanup_delete_daily (\<lambda>p. if p = ''delete_daily/held.mp4'' then Some ''in use'' else None)
      [''old.mp4'', ''clips'', ''held.mp4'', ''stale'']
      (fresh_world\<lparr>fs := [''delete_daily/old.mp4'' \<mapsto> File, ''delete_daily/clips'' \<mapsto> Dir,
        ''delete_daily/clips/a.mp4'' \<mapsto> File, ''delete_daily/held.mp4'' \<mapsto> File,
        ''delete_daily/stale'' \<mapsto> DeadLink]\<rparr>))) =
     [CleanupError ''delete_daily/held.mp4'' ''in use'', CleanupRemoved 2] \<and>
   fs (snd (cleanup_delete_daily (\<lambda>p. if p = ''delete_daily/held.mp4'' then Some ''in use'' else None)
      [''old.mp4'', ''clips'', ''held.mp4'', ''stale'']
      (fresh_world\<lparr>fs := [''delete_daily/old.mp4'' \<mapsto> File, ''delete_daily/clips'' \<mapsto> Dir,
        ''delete_daily/clips/a.mp4'' \<mapsto> File, ''delete_daily/held.mp4'' \<mapsto> File,
        ''delete_daily/stale'' \<mapsto> DeadLink]\<rparr>))) ''delete_daily/old.mp4'' = None \<and>
   fs (snd (cleanup_delete_daily (\<lambda>p. if p = ''delete_daily/held.mp4'' then Some ''in use'' else None)
      [''old.mp4'', ''clips'', ''held.mp4'', ''stale'']
      (fresh_world\<lparr>fs := [''delete_daily/old.mp4'' \<mapsto> File, ''delete_daily/clips'' \<mapsto> Dir,
        ''delete_daily/clips/a.mp4'' \<mapsto> File, ''delete_daily/held.mp4'' \<mapsto> File,
        ''delete_daily/stale'' \<mapsto> DeadLink]\<rparr>))) ''delete_daily/clips'' = None \<and>
   fs (snd (cleanup_delete_daily (\<lambda>p. if p = ''delete_daily/held.mp4'' then Some ''in use'' else None)
      [''old.mp4'', ''clips'', ''held.mp4'', ''stale'']
      (fresh_world\<lparr>fs := [''delete_daily/old.mp4'' \<mapsto> File, ''delete_daily/clips'' \<mapsto> Dir,
        ''delete_daily/clips/a.mp4'' \<mapsto> File, ''delete_daily/held.mp4'' \<mapsto> File,
        ''delete_daily/stale'' \<mapsto> DeadLink]\<rparr>))) ''delete_daily/clips/a.mp4'' = None \<and>
   fs (snd (cleanup_delete_daily (\<lambda>p. if p = ''delete_daily/held.mp4'' then Some ''in use'' else None)
      [''old.mp4'', ''clips'', ''held.mp4'', ''stale'']
      (fresh_world\<lparr>fs := [''delete_daily/old.mp4'' \<mapsto> File, ''delete_daily/clips'' \<mapsto> Dir,
        ''delete_daily/clips/a.mp4'' \<mapsto> File, ''delete_daily/held.mp4'' \<mapsto> File,
        ''delete_daily/stale'' \<mapsto> DeadLink]\<rparr>))) ''delete_daily/held.mp4'' = Some File \<and>
   fs (snd (cleanup_delete_daily (\<lambda>p. if p = ''delete_daily/held.mp4'' then Some ''in use'' else None)
      [''old.mp4'', ''clips'', ''held.mp4'', ''stale'']
      (fresh_world\<lparr>fs := [''delete_daily/old.mp4'' \<mapsto> File, ''delete_daily/clips'' \<mapsto> Dir,
        ''delete_daily/clips/a.mp4'' \<mapsto> File, ''delete_daily/held.mp4'' \<mapsto> File,
        ''delete_daily/stale'' \<mapsto> DeadLink]\<rparr>))) ''delete_daily/stale'' = Some DeadLink"
proof -
  have d: "distinct [''old.mp4'', ''clips'', ''held.mp4'', ''stale'']" by simp
  have n: "\<forall>n\<in>set [''old.mp4'', ''clips'', ''held.mp4'', ''stale'']. CHR ''/'' \<notin> set n" by simp
  from cleanup_purges_files_and_directories [OF d n, of "\<lambda>p. if p = ''delete_daily/held.mp4'' then Some ''in use'' else None"
      "fresh_world\<lparr>fs := [''delete_daily/old.mp4'' \<mapsto> File, ''delete_daily/clips'' \<mapsto> Dir,
        ''delete_daily/clips/a.mp4'' \<mapsto> File, ''delete_daily/held.mp4'' \<mapsto> File,
        ''delete_daily/stale'' \<mapsto> DeadLink]\<rparr>"]
  have c: "fst (cleanup_delete_daily (\<lambda>p. if p = ''delete_daily/held.mp4'' then Some ''in use'' else None)
      [''old.mp4'', ''clips'', ''held.mp4'', ''stale'']
      (fresh_world\<lparr>fs := [''delete_daily/old.mp4'' \<mapsto> File, ''delete_daily/clips'' \<mapsto> Dir,
        ''delete_daily/clips/a.mp4'' \<mapsto> File, ''delete_daily/held.mp4'' \<mapsto> File,
        ''delete_daily/stale'' \<mapsto> DeadLink]\<rparr>)) =
     length (filter (deletes (\<lambda>p. if p = ''delete_daily/held.mp4'' then Some ''in use'' else None)
       (fs (fresh_world\<lparr>fs := [''delete_daily/old.mp4'' \<mapsto> File, ''delete_daily/clips'' \<mapsto> Dir,
        ''delete_daily/clips/a.mp4'' \<mapsto> File, ''delete_daily/held.mp4'' \<mapsto> File,
        ''delete_daily/stale'' \<mapsto> DeadLink]\<rparr>))) [''old.mp4'', ''clips'', ''held.mp4'', ''stale''])"
    by (simp only: Let_def)
  have l: "length (filter (deletes (\<lambda>p. if p = ''delete_daily/held.mp4'' then Some ''in use'' else None)
       (fs (fresh_world\<lparr>fs := [''delete_daily/old.mp4'' \<mapsto> File, ''delete_daily/clips'' \<mapsto> Dir,
        ''delete_daily/clips/a.mp4'' \<mapsto> File, ''delete_daily/held.mp4'' \<mapsto> File,
        ''delete_daily/stale'' \<mapsto> DeadLink]\<rparr>))) [''old.mp4'', ''clips'', ''held.mp4'', ''stale'']) = 2"
    by (simp add: deletes_def entry_def path_join_def DELETE_DAILY_DIR_def isfile_def isdir_def)
  have f: "fst (cleanup_delete_daily (\<lambda>p. if p = ''delete_daily/held.mp4'' then Some ''in use'' else None)
      [''old.mp4'', ''clips'', ''held.mp4'', ''stale'']
      (fresh_world\<lparr>fs := [''delete_daily/old.mp4'' \<mapsto> File, ''delete_daily/clips'' \<mapsto> Dir,
        ''delete_daily/clips/a.mp4'' \<mapsto> File, ''delete_daily/held.mp4'' \<mapsto> File,
        ''delete_daily/stale'' \<mapsto> DeadLink]\<rparr>)) = 2"
    using c l by (rule trans)
  have e: "logged (snd (cleanup_delete_daily (\<lambda>p. if p = ''delete_daily/held.mp4'' then Some ''in use'' else None)
      [''old.mp4'', ''clips'', ''held.mp4'', ''stale'']
      (fresh_world\<lparr>fs := [''delete_daily/old.mp4'' \<mapsto> File, ''delete_daily/clips'' \<mapsto> Dir,
        ''delete_daily/clips/a.mp4'' \<mapsto> File, ''delete_daily/held.mp4'' \<mapsto> File,
        ''delete_daily/stale'' \<mapsto> DeadLink]\<rparr>))) =
     [CleanupError ''delete_daily/held.mp4'' ''in use'', CleanupRemoved 2] \<and>
   fs (snd (cleanup_delete_daily (\<lambda>p. if p = ''delete_daily/held.mp4'' then Some ''in use'' else None)
      [''old.mp4'', ''clips'', ''held.mp4'', ''stale'']
      (fresh_world\<lparr>fs := [''delete_daily/old.mp4'' \<mapsto> File, ''delete_daily/clips'' \<mapsto> Dir,
        ''delete_daily/clips/a.mp4'' \<mapsto> File, ''delete_daily/held.mp4'' \<mapsto> File,
        ''delete_daily/stale'' \<mapsto> DeadLink]\<rparr>))) ''delete_daily/old.mp4'' = None \<and>
   fs (snd (cleanup_delete_daily (\<lambda>p. if p = ''delete_daily/held.mp4'' then Some ''in use'' else None)
      [''old.mp4'', ''clips'', ''held.mp4'', ''stale'']
      (fresh_world\<lparr>fs := [''delete_daily/old.mp4'' \<mapsto> File, ''delete_daily/clips'' \<mapsto> Dir,
        ''delete_daily/clips/a.mp4'' \<mapsto> File, ''delete_daily/held.mp4'' \<mapsto> File,
        ''delete_daily/stale'' \<mapsto> DeadLink]\<rparr>))) ''delete_daily/clips'' = None \<and>
   fs (snd (cleanup_delete_daily (\<lambda>p. if p = ''delete_daily/held.mp4'' then Some ''in use'' else None)
      [''old.mp4'', ''clips'', ''held.mp4'', ''stale'']
      (fresh_world\<lparr>fs := [''delete_daily/old.mp4'' \<mapsto> File, ''delete_daily/clips'' \<mapsto> Dir,
        ''delete_daily/clips/a.mp4'' \<mapsto> File, ''delete_daily/held.mp4'' \<mapsto> File,
        ''delete_daily/stale'' \<mapsto> DeadLink]\<rparr>))) ''delete_daily/clips/a.mp4'' = None \<and>
   fs (snd (cleanup_delete_daily (\<lambda>p. if p = ''delete_daily/held.mp4'' then Some ''in use'' else None)
      [''old.mp4'', ''clips'', ''held.mp4'', ''stale'']
      (fresh_world\<lparr>fs := [''delete_daily/old.mp4'' \<mapsto> File, ''delete_daily/clips'' \<mapsto> Dir,
        ''delete_daily/clips/a.mp4'' \<mapsto> File, ''delete_daily/held.mp4'' \<mapsto> File,
        ''delete_daily/stale'' \<mapsto> DeadLink]\<rparr>))) ''delete_daily/held.mp4'' = Some File \<and>
   fs (snd (cleanup_delete_daily (\<lambda>p. if p = ''delete_daily/held.mp4'' then Some ''in use'' else None)
      [''old.mp4'', ''clips'', ''held.mp4'', ''stale'']
      (fresh_world\<lparr>fs := [''delete_daily/old.mp4'' \<mapsto> File, ''delete_daily/clips'' \<mapsto> Dir,
        ''delete_daily/clips/a.mp4'' \<mapsto> File, ''delete_daily/held.mp4'' \<mapsto> File,
        ''delete_daily/stale'' \<mapsto> DeadLink]\<rparr>))) ''delete_daily/stale'' = Some DeadLink"
    by (simp add: cleanup_delete_daily_def path_join_def DELETE_DAILY_DIR_def isfile_def isdir_def
        os_remove_def rmtree_def below_def log_def fresh_world_def Let_def)
  from d f e show ?thesis by blast
qed

text \<open>
  Claim C7, as stated, fails: a link whose target is missing is listed, is neither a file
  nor a directory for \<^verbatim>\<open>os.path\<close>, and is still there after the purge, which counts nothing
  and logs no error.
\<close>

theorem dead_link_counterexample:
  "cleanup_delete_daily never [''stale'']
     (fresh_world\<lparr>fs := [''delete_daily/stale'' \<mapsto> DeadLink]\<rparr>) =
   (0, fresh_world\<lparr>fs := [''delete_daily/stale'' \<mapsto> DeadLink],
         logged := [CleanupRemoved 0]\<rparr>)"
  by (simp add: cleanup_delete_daily_def path_join_def DELETE_DAILY_DIR_def isfile_def isdir_def
      log_def fresh_world_def Let_def)

section \<open>Properties of device detection and startup\<close>

text \<open>
  The parser on a listing in the format it expects; the result of the detection for each
  answer of the query, one category at a time; and a startup with no configuration and no
  device, which ends in \<open>idle_app\<close>.
\<close>

lemma parse_dshow_devices_example:
  "parse_dshow_devices
     (''DirectShow video devices'' @ [CHR 0x0A] @
      [CHR 0x22] @ ''USB Camera'' @ [CHR 0x22] @ [CHR 0x0A] @
      ''DirectShow audio devices'' @ [CHR 0x0A] @
      ''  '' @ [CHR 0x22] @ ''Microphone'' @ [CHR 0x22] @ [CHR 0x0D, CHR 0x0A]) =
   ([''USB Camera''], [''Microphone''])"
  by code_simp

lemma pick_single: "pick [x] x i = x"
  by (simp add: pick_def split: option.splits)

lemma fallback_nonempty: "FALLBACK_VIDEO_DEVICE \<noteq> []" "FALLBACK_AUDIO_DEVICE \<noteq> []"
  by (simp_all add: FALLBACK_VIDEO_DEVICE_def FALLBACK_AUDIO_DEVICE_def)

lemma parse_empty: "parse_dshow_devices [] = ([], [])"
  by (simp add: parse_dshow_devices_def splitlines_def)

lemma detect_devices_once_result:
  "detect_devices_once RaisesFileNotFound =
     Inr ([FALLBACK_VIDEO_DEVICE], [FALLBACK_AUDIO_DEVICE])"
  "detect_devices_once (Completed t) =
     Inr (if fst (parse_dshow_devices t) = [] then [FALLBACK_VIDEO_DEVICE]
          else fst (parse_dshow_devices t),
          if snd (parse_dshow_devices t) = [] then [FALLBACK_AUDIO_DEVICE]
          else snd (parse_dshow_devices t))"
  "detect_devices_once (RaisesOther e) = Inl (Raised e)"
  by (simp_all add: detect_devices_once_def ffmpeg_list_devices_def parse_empty split: prod.splits)

lemma startup_without_devices:
  assumes "r = RaisesFileNotFound \<or> (\<exists>t. r = Completed t \<and> parse_dshow_devices t = ([], []))"
  shows "\<exists>a w'. init r Map.empty ch rm names w = Inr (a, w') \<and>
         video_device a = FALLBACK_VIDEO_DEVICE \<and> audio_device a = FALLBACK_AUDIO_DEVICE"
proof -
  from assms have d: "detect_devices_once r = Inr ([FALLBACK_VIDEO_DEVICE], [FALLBACK_AUDIO_DEVICE])"
    by (auto simp: detect_devices_once_result)
  show ?thesis
  proof (cases ch)
    case Cancelled
    then show ?thesis
      by (simp add: init_def d item0_def get_or_def Let_def open_device_dialog_def
          device_select_dialog_def or_first_def fallback_nonempty store_selection_def
          open_preview_def)
  next
    case (Confirmed i j)
    then show ?thesis
      by (simp add: init_def d item0_def get_or_def Let_def open_device_dialog_def
          device_select_dialog_def pick_single store_selection_def
          open_preview_def close_preview_def)
  qed
qed

lemma first_run_reaches_idle_app:
  "init RaisesFileNotFound Map.empty Cancelled never [] fresh_world =
     Inr (idle_app,
          fresh_world\<lparr>logged := [CleanupRemoved 0, FirstRunFallback,
            UsingDevices ''USB Camera'' ''Microphone (USB 2.0 Camera)'']\<rparr>)"
  by (simp add: init_def detect_devices_once_def ffmpeg_list_devices_def parse_empty
      item0_def get_or_def Let_def open_device_dialog_def
      device_select_dialog_def or_first_def store_selection_def open_preview_def
      cleanup_delete_daily_def log_def FALLBACK_VIDEO_DEVICE_def FALLBACK_AUDIO_DEVICE_def
      idle_app_def fresh_world_def)

text \<open>
  Claim C8, at the input where the code departs from it. When the query raises anything
  other than \<^verbatim>\<open>FileNotFoundError\<close> (here \<^verbatim>\<open>PermissionError\<close>: the binary found cannot be
  executed), the exception is not turned into the fallback lists: it leaves
  \<^verbatim>\<open>ffmpeg_list_devices\<close>, \<^verbatim>\<open>detect_devices_once\<close> and \<^verbatim>\<open>__init__\<close>, whereas the missing binary
  gives the two fallback lists.
\<close>

theorem enumeration_error_propagates:
  "ffmpeg_list_devices (RaisesOther ''PermissionError'') = Inl (Raised ''PermissionError'') \<and>
   detect_devices_once (RaisesOther ''PermissionError'') = Inl (Raised ''PermissionError'') \<and>
   init (RaisesOther ''PermissionError'') Map.empty Cancelled never [] fresh_world =
     Inl (Raised ''PermissionError'') \<and>
   detect_devices_once RaisesFileNotFound =
     Inr ([FALLBACK_VIDEO_DEVICE], [FALLBACK_AUDIO_DEVICE])"
  by (simp add: detect_devices_once_def ffmpeg_list_devices_def init_def parse_empty)

end
